theory Spec2Isabelle
  imports Main "HOL-Library.Sublist"
begin

section \<open>Strings and JavaScript values\<close>

text \<open>
  A JavaScript string is a sequence of UTF-16 code units. The model uses \<open>string\<close>
  (\<open>char list\<close>) and reads each \<open>char\<close> as the code unit with that number, so it covers
  the strings whose code units lie in U+0000..U+00FF. A value of type \<open>string | null\<close>
  is a \<open>string option\<close>, with \<open>None\<close> for \<open>null\<close> and \<open>undefined\<close>.

  A JavaScript \<open>number\<close> is an IEEE double. Doubles are not modelled: the mapper is
  parametrised by the two builtins it applies to numbers, over any linearly ordered
  type \<open>'n\<close> of numeric values with a zero. \<open>parseFloat\<close> returns \<open>None\<close> for NaN, and a
  comparison with NaN is false, as in JavaScript.
\<close>

record 'n js_number_ops =
  parseFloat :: "string \<Rightarrow> 'n option"
  numberToString :: "'n \<Rightarrow> string"

definition js_gt :: "('n::linorder) option \<Rightarrow> 'n option \<Rightarrow> bool" where
  "js_gt a b = (case a of None \<Rightarrow> False
                | Some x \<Rightarrow> (case b of None \<Rightarrow> False | Some y \<Rightarrow> y < x))"

text \<open>Truthiness of a \<open>string | null\<close> value: \<open>null\<close> and the empty string are falsy.\<close>

definition truthy :: "string option \<Rightarrow> bool" where
  "truthy v = (case v of None \<Rightarrow> False | Some s \<Rightarrow> s \<noteq> [])"

text \<open>\<open>a || b\<close> where \<open>a\<close> is \<open>string | null\<close> and \<open>b\<close> is a string.\<close>

definition or_else :: "string option \<Rightarrow> string \<Rightarrow> string" where
  "or_else v d = (case v of None \<Rightarrow> d | Some s \<Rightarrow> (if s = [] then d else s))"

text \<open>
  \<open>s.split(c)\<close> for a one-character separator, scanning from the left with the current
  piece in \<open>cur\<close>: never the empty list.
\<close>

fun split_from :: "char \<Rightarrow> string \<Rightarrow> string \<Rightarrow> string list" where
  "split_from c cur [] = [cur]"
| "split_from c cur (x # xs) =
     (if x = c then cur # split_from c [] xs else split_from c (cur @ [x]) xs)"

definition split_on :: "char \<Rightarrow> string \<Rightarrow> string list" where
  "split_on c s = split_from c [] s"

text \<open>\<open>xs.join(sep)\<close>.\<close>

fun join :: "string \<Rightarrow> string list \<Rightarrow> string" where
  "join sep [] = []"
| "join sep [x] = x"
| "join sep (x # y # ys) = x @ sep @ join sep (y # ys)"

text \<open>\<open>s.replace(/\/$/, "")\<close>: drops one trailing slash.\<close>

definition stripTrailingSlash :: "string \<Rightarrow> string" where
  "stripTrailingSlash s = (if s \<noteq> [] \<and> last s = CHR ''/'' then butlast s else s)"

text \<open>
  \<open>String.prototype.toLowerCase\<close> on the code units U+0000..U+00FF: the ASCII capitals
  and the Latin-1 capitals U+00C0..U+00DE (without the multiplication sign U+00D7) move
  up by 32, every other code unit stays.
\<close>

definition lowerChar :: "char \<Rightarrow> char" where
  "lowerChar c =
     (let n = of_char c :: nat
      in if (65 \<le> n \<and> n \<le> 90) \<or> (192 \<le> n \<and> n \<le> 222 \<and> n \<noteq> 215)
         then char_of (n + 32) else c)"

definition toLowerCase :: "string \<Rightarrow> string" where
  "toLowerCase s = map lowerChar s"

section \<open>Input records (shopify-products.server.ts)\<close>

record SelectedOption =
  opt_name :: string
  opt_value :: string

record Image =
  img_url :: string
  altText :: "string option"

record 'n ShopifyVariant =
  v_id :: string
  v_title :: string
  sku :: "string option"
  barcode :: "string option"
  v_price :: string
  compareAtPrice :: "string option"
  availableForSale :: bool
  inventoryQuantity :: "int option"
  inventoryPolicy :: string
  v_weight :: "'n option"
  weightUnit :: string
  selectedOptions :: "SelectedOption list"
  v_image :: "Image option"

record ProductOption =
  po_name :: string
  po_values :: "string list"

record 'n ShopifyProduct =
  p_id :: string
  p_title :: string
  descriptionHtml :: string
  p_description :: string
  handle :: string
  vendor :: string
  productType :: string
  tags :: "string list"
  status :: string
  createdAt :: string
  updatedAt :: string
  onlineStoreUrl :: "string option"
  options :: "ProductOption list"
  images :: "Image list"
  variants :: "'n ShopifyVariant list"

text \<open>
  \<open>ShopInfo\<close>: the mapper reads \<open>primaryDomain?.url\<close> and
  \<open>billingAddress?.countryCodeV2\<close> through optional chaining, so both may be missing.
\<close>

record ShopInfo =
  s_name :: string
  s_url :: string
  primaryDomain :: "string option"
  currencyCode :: string
  billingCountry :: "string option"
  billingCountryCodeV2 :: "string option"
  shipsToCountries :: "string list"

section \<open>Feed settings and feed records (feed-mapper.server.ts)\<close>

record FeedSettings =
  shop :: string
  enable_search :: bool
  enable_checkout :: bool
  seller_name :: "string option"
  seller_url :: "string option"
  privacy_policy_url :: "string option"
  terms_of_service_url :: "string option"
  return_policy_url :: "string option"
  accepts_returns :: bool
  return_deadline_days :: int
  accepts_exchanges :: bool
  store_country :: string
  target_countries :: string

datatype availability = in_stock | out_of_stock | preorder

text \<open>
  \<open>OpenAIFeedItem\<close>: a field the object literal adds through a conditional spread is
  an \<open>option\<close>, \<open>None\<close> when the key is not in the object.
\<close>

record OpenAIFeedItem =
  is_eligible_search :: bool
  is_eligible_checkout :: bool
  item_id :: string
  title :: string
  description :: string
  url :: string
  condition :: string
  product_category :: string
  brand :: string
  weight :: "string option"
  item_weight_unit :: "string option"
  image_url :: string
  additional_image_urls :: "string option"
  price :: string
  sale_price :: "string option"
  item_availability :: availability
  group_id :: string
  listing_has_variations :: bool
  variant_dict :: "string option"
  item_group_title :: string
  color :: "string option"
  item_size :: "string option"
  offer_id :: "string option"
  item_seller_name :: string
  item_seller_url :: string
  seller_privacy_policy :: "string option"
  seller_tos :: "string option"
  item_accepts_returns :: "bool option"
  return_deadline_in_days :: "int option"
  item_accepts_exchanges :: "bool option"
  return_policy :: "string option"
  item_target_countries :: string
  item_store_country :: string

subsection \<open>Field derivers\<close>

definition extractShopifyId :: "string \<Rightarrow> string" where
  "extractShopifyId gid = last (split_on CHR ''/'' gid)"

definition getAvailability :: "'n ShopifyVariant \<Rightarrow> availability" where
  "getAvailability variant =
     (if inventoryPolicy variant = ''CONTINUE'' then in_stock
      else if availableForSale variant then in_stock
      else if (case inventoryQuantity variant of None \<Rightarrow> False | Some q \<Rightarrow> q \<le> 0)
           then out_of_stock
      else (if availableForSale variant then in_stock else out_of_stock))"

definition buildProductUrl :: "string \<Rightarrow> string \<Rightarrow> string" where
  "buildProductUrl shopUrl h = stripTrailingSlash shopUrl @ ''/products/'' @ h"

text \<open>
  \<open>mapWeightUnit\<close>: a lookup in a table of four units, with \<open>lb\<close> for a missing key. The
  argument is a value of Shopify's \<open>WeightUnit\<close> enumeration; the names of the
  properties every object inherits (\<open>constructor\<close>, \<open>toString\<close> and so on), which the
  lookup in the source would find, are outside that enumeration and take the default
  here.
\<close>

definition mapWeightUnit :: "string \<Rightarrow> string" where
  "mapWeightUnit unit =
     (if unit = ''KILOGRAMS'' then ''kg''
      else if unit = ''GRAMS'' then ''g''
      else if unit = ''POUNDS'' then ''lb''
      else if unit = ''OUNCES'' then ''oz''
      else ''lb'')"

subsection \<open>Option dictionary and option extraction\<close>

text \<open>
  \<open>buildVariantDict\<close> fills a plain object by assignment. The object is an association
  list in insertion order: assigning to an existing key keeps its place, assigning to
  a new key appends. Assigning a string to the key \<open>__proto__\<close> of a plain object sets no
  property.
\<close>

fun dict_update :: "string \<Rightarrow> string \<Rightarrow> (string \<times> string) list \<Rightarrow> (string \<times> string) list" where
  "dict_update k v [] = [(k, v)]"
| "dict_update k v ((k', v') # d) =
     (if k' = k then (k, v) # d else (k', v') # dict_update k v d)"

definition dict_assign :: "(string \<times> string) list \<Rightarrow> string \<Rightarrow> string \<Rightarrow> (string \<times> string) list" where
  "dict_assign d k v = (if k = ''__proto__'' then d else dict_update k v d)"

fun fillDict :: "SelectedOption list \<Rightarrow> (string \<times> string) list \<Rightarrow> (string \<times> string) list" where
  "fillDict [] d = d"
| "fillDict (opt # opts) d = fillDict opts (dict_assign d (toLowerCase (opt_name opt)) (opt_value opt))"

definition buildVariantDict :: "'n ShopifyVariant \<Rightarrow> (string \<times> string) list option" where
  "buildVariantDict variant =
     (if selectedOptions variant = [] \<or>
         (length (selectedOptions variant) = 1 \<and>
          opt_value (hd (selectedOptions variant)) = ''Default Title'')
      then None
      else Some (fillDict (selectedOptions variant) []))"

definition extractOption :: "'n ShopifyVariant \<Rightarrow> string \<Rightarrow> string option" where
  "extractOption variant optionName =
     (case find (\<lambda>opt. toLowerCase (opt_name opt) = toLowerCase optionName)
                (selectedOptions variant) of
        None \<Rightarrow> None
      | Some option \<Rightarrow>
          (if opt_value option \<noteq> ''Default Title'' then Some (opt_value option) else None))"

subsection \<open>Text normalizer\<close>

text \<open>
  The white space class \<open>\s\<close> of a JavaScript regular expression, and of \<open>trim\<close>, on the
  code units U+0000..U+00FF: tab, line feed, vertical tab, form feed, carriage return,
  space and no-break space.
\<close>

definition isSpace :: "char \<Rightarrow> bool" where
  "isSpace c = (of_char c \<in> {9, 10, 11, 12, 13, 32, 160 :: nat})"

text \<open>
  \<open>s.replace(/<[^>]*>/g, " ")\<close>: the scan goes left to right; at a \<open><\<close> that has a \<open>>\<close>
  somewhere after it the match runs to the first such \<open>>\<close> and is replaced by one space;
  the scan resumes after the match.
\<close>

function replaceTags :: "string \<Rightarrow> string" where
  "replaceTags [] = []"
| "replaceTags (c # cs) =
     (if c = CHR ''<'' \<and> CHR ''>'' \<in> set cs
      then CHR '' '' # replaceTags (tl (dropWhile (\<lambda>x. x \<noteq> CHR ''>'') cs))
      else c # replaceTags cs)"
  by pat_completeness auto
termination
proof (relation "measure length")
  show "wf (measure length)" by simp
next
  fix c :: char and cs :: string
  have "length (tl (dropWhile (\<lambda>x. x \<noteq> CHR ''>'') cs)) \<le> length cs"
    using length_dropWhile_le [of "\<lambda>x. x \<noteq> CHR ''>''" cs] by simp
  then show "(tl (dropWhile (\<lambda>x. x \<noteq> CHR ''>'') cs), c # cs) \<in> measure length"
    by simp
next
  fix c :: char and cs :: string
  show "(cs, c # cs) \<in> measure length" by simp
qed

text \<open>\<open>s.replace(/pat/g, rep)\<close> for a pattern that is a literal, non-empty string.\<close>

function replaceAll :: "string \<Rightarrow> string \<Rightarrow> string \<Rightarrow> string" where
  "replaceAll pat rep [] = []"
| "replaceAll pat rep (c # cs) =
     (if pat \<noteq> [] \<and> prefix pat (c # cs)
      then rep @ replaceAll pat rep (drop (length pat - 1) cs)
      else c # replaceAll pat rep cs)"
  by pat_completeness auto
termination
  by (relation "measure (\<lambda>(pat, rep, s). length s)") auto

text \<open>\<open>s.replace(/\s+/g, " ")\<close>.\<close>

function collapseSpaces :: "string \<Rightarrow> string" where
  "collapseSpaces [] = []"
| "collapseSpaces (c # cs) =
     (if isSpace c then CHR '' '' # collapseSpaces (dropWhile isSpace cs)
      else c # collapseSpaces cs)"
  by pat_completeness auto
termination
proof (relation "measure length")
  show "wf (measure length)" by simp
next
  fix c :: char and cs :: string
  show "(dropWhile isSpace cs, c # cs) \<in> measure length"
    using length_dropWhile_le [of isSpace cs] by simp
next
  fix c :: char and cs :: string
  show "(cs, c # cs) \<in> measure length" by simp
qed

definition trim :: "string \<Rightarrow> string" where
  "trim s = rev (dropWhile isSpace (rev (dropWhile isSpace s)))"

definition stripHtml :: "string \<Rightarrow> string" where
  "stripHtml html =
     trim (collapseSpaces
       (replaceAll ''&#39;'' [CHR 0x27]
       (replaceAll ''&quot;'' [CHR 0x22]
       (replaceAll ''&gt;'' ''>''
       (replaceAll ''&lt;'' ''<''
       (replaceAll ''&amp;'' ''&''
       (replaceAll ''&nbsp;'' '' ''
       (replaceTags html))))))))"

subsection \<open>JSON.stringify\<close>

text \<open>
  \<open>QuoteJSONString\<close> of ECMA-262 on the code units U+0000..U+00FF: the double quote
  and the backslash are escaped, the control characters below U+0020 become \<open>\b\<close>,
  \<open>\t\<close>, \<open>\n\<close>, \<open>\f\<close>, \<open>\r\<close> or \<open>\u00XX\<close> in lower-case hexadecimal, and every other
  code unit is copied.
\<close>

definition hexDigit :: "nat \<Rightarrow> char" where
  "hexDigit d = (if d < 10 then char_of (48 + d) else char_of (87 + d))"

definition quoteChar :: "char \<Rightarrow> string" where
  "quoteChar c =
     (let n = of_char c :: nat
      in if n = 0x22 then [CHR 0x5C, CHR 0x22]
         else if n = 0x5C then [CHR 0x5C, CHR 0x5C]
         else if n = 8 then [CHR 0x5C, CHR ''b'']
         else if n = 9 then [CHR 0x5C, CHR ''t'']
         else if n = 10 then [CHR 0x5C, CHR ''n'']
         else if n = 12 then [CHR 0x5C, CHR ''f'']
         else if n = 13 then [CHR 0x5C, CHR ''r'']
         else if n < 32 then [CHR 0x5C, CHR ''u'', CHR ''0'', CHR ''0'',
                              hexDigit (n div 16), hexDigit (n mod 16)]
         else [c])"

definition quoteJSONString :: "string \<Rightarrow> string" where
  "quoteJSONString s = CHR 0x22 # concat (map quoteChar s) @ [CHR 0x22]"

text \<open>
  The numbers the feed record carries are day counts read from an INTEGER column; an
  integer of magnitude below \<open>10^21\<close> prints in plain decimal.
\<close>

function showNat :: "nat \<Rightarrow> string" where
  "showNat n = (if n < 10 then [char_of (48 + n)]
                else showNat (n div 10) @ [char_of (48 + n mod 10)])"
  by pat_completeness auto
termination
  by (relation "measure id") auto

declare showNat.simps [simp del]

definition showInt :: "int \<Rightarrow> string" where
  "showInt i = (if i < 0 then CHR ''-'' # showNat (nat (- i)) else showNat (nat i))"

datatype json = JString string | JBool bool | JNumber int

fun stringifyValue :: "json \<Rightarrow> string" where
  "stringifyValue (JString s) = quoteJSONString s"
| "stringifyValue (JBool b) = (if b then ''true'' else ''false'')"
| "stringifyValue (JNumber i) = showInt i"

definition stringifyMember :: "string \<times> json \<Rightarrow> string" where
  "stringifyMember kv = quoteJSONString (fst kv) @ '':'' @ stringifyValue (snd kv)"

text \<open>\<open>JSON.stringify\<close> of an object whose own properties, in property order, are \<open>props\<close>.\<close>

definition stringifyObject :: "(string \<times> json) list \<Rightarrow> string" where
  "stringifyObject props = ''{'' @ join '','' (map stringifyMember props) @ ''}''"

text \<open>
  Property order of an ordinary object: the keys that are array indices (canonical
  decimal numerals up to \<open>2^32 - 2\<close>) come first in ascending numeric order, the other
  keys follow in insertion order.
\<close>

definition natOfDigits :: "string \<Rightarrow> nat" where
  "natOfDigits s = foldl (\<lambda>a c. 10 * a + (of_char c - 48)) 0 s"

definition isArrayIndex :: "string \<Rightarrow> bool" where
  "isArrayIndex k =
     (k \<noteq> [] \<and> (\<forall>c \<in> set k. 48 \<le> (of_char c :: nat) \<and> (of_char c :: nat) \<le> 57)
      \<and> (k = ''0'' \<or> hd k \<noteq> CHR ''0'') \<and> natOfDigits k \<le> 4294967294)"

definition ownPropertyOrder :: "(string \<times> 'v) list \<Rightarrow> (string \<times> 'v) list" where
  "ownPropertyOrder d =
     sort_key (\<lambda>kv. natOfDigits (fst kv)) (filter (\<lambda>kv. isArrayIndex (fst kv)) d)
     @ filter (\<lambda>kv. \<not> isArrayIndex (fst kv)) d"

definition stringifyDict :: "(string \<times> string) list \<Rightarrow> string" where
  "stringifyDict d = stringifyObject (map (\<lambda>kv. (fst kv, JString (snd kv))) (ownPropertyOrder d))"

subsection \<open>Record mapper\<close>

definition resolveMainImage :: "'n ShopifyProduct \<Rightarrow> 'n ShopifyVariant \<Rightarrow> string" where
  "resolveMainImage product variant =
     (let variantImage = map_option img_url (v_image variant);
          productImages = map img_url (images product)
      in or_else variantImage
           (case productImages of [] \<Rightarrow> [] | first # rest \<Rightarrow> first))"

definition mapVariantToFeedItem ::
  "('n::{linorder,zero}) js_number_ops \<Rightarrow> 'n ShopifyProduct \<Rightarrow> 'n ShopifyVariant \<Rightarrow>
   ShopInfo \<Rightarrow> FeedSettings \<Rightarrow> OpenAIFeedItem option" where
  "mapVariantToFeedItem js product variant shopInfo settings =
     (if status product \<noteq> ''ACTIVE'' then None
      else
        let productId = extractShopifyId (p_id product);
            variantId = extractShopifyId (v_id variant);
            shopUrl = or_else (seller_url settings)
                        (or_else (primaryDomain shopInfo) (s_url shopInfo));
            cleanShopUrl = stripTrailingSlash shopUrl;
            productUrl = or_else (onlineStoreUrl product)
                           (buildProductUrl cleanShopUrl (handle product));
            productImages = map img_url (images product);
            mainImage = resolveMainImage product variant
        in if mainImage = [] then None
           else
             let additionalImages = filter (\<lambda>u. u \<noteq> mainImage) productImages;
                 desc = (if p_description product \<noteq> [] then p_description product
                         else if stripHtml (descriptionHtml product) \<noteq> []
                              then stripHtml (descriptionHtml product)
                         else p_title product);
                 currency = (if currencyCode shopInfo \<noteq> [] then currencyCode shopInfo
                             else ''USD'');
                 hasVariations =
                   (length (variants product) > 1 \<or>
                    (selectedOptions variant \<noteq> [] \<and>
                     opt_value (hd (selectedOptions variant)) \<noteq> ''Default Title''));
                 variantDict = buildVariantDict variant;
                 discounted =
                   (case compareAtPrice variant of
                      None \<Rightarrow> False
                    | Some c \<Rightarrow> c \<noteq> [] \<and>
                        js_gt (parseFloat js c) (parseFloat js (v_price variant)));
                 weighted =
                   (case v_weight variant of None \<Rightarrow> False | Some w \<Rightarrow> w \<noteq> 0 \<and> 0 < w);
                 returns = truthy (return_policy_url settings)
             in Some \<lparr>
                  is_eligible_search = enable_search settings,
                  is_eligible_checkout = enable_checkout settings,
                  item_id = or_else (sku variant) (productId @ ''-'' @ variantId),
                  title = (if hasVariations then p_title product @ '' - '' @ v_title variant
                           else p_title product),
                  description = desc,
                  url = productUrl,
                  condition = ''new'',
                  product_category =
                    (if productType product \<noteq> [] then productType product
                     else ''Uncategorized''),
                  brand = (if vendor product \<noteq> [] then vendor product
                           else or_else (seller_name settings) []),
                  weight = (if weighted
                            then map_option (numberToString js) (v_weight variant)
                            else None),
                  item_weight_unit =
                    (if weighted then Some (mapWeightUnit (weightUnit variant)) else None),
                  image_url = mainImage,
                  additional_image_urls =
                    (if additionalImages \<noteq> [] then Some (join '','' additionalImages)
                     else None),
                  price = (if discounted
                           then or_else (compareAtPrice variant) [] @ '' '' @ currency
                           else v_price variant @ '' '' @ currency),
                  sale_price = (if discounted then Some (v_price variant @ '' '' @ currency)
                                else None),
                  item_availability = getAvailability variant,
                  group_id = productId,
                  listing_has_variations = hasVariations,
                  variant_dict = map_option stringifyDict variantDict,
                  item_group_title = p_title product,
                  color = (if truthy (extractOption variant ''color'')
                           then extractOption variant ''color'' else None),
                  item_size = (if truthy (extractOption variant ''size'')
                               then extractOption variant ''size'' else None),
                  offer_id = Some (or_else (sku variant) (productId @ ''-'' @ variantId)),
                  item_seller_name = or_else (seller_name settings) (s_name shopInfo),
                  item_seller_url = cleanShopUrl,
                  seller_privacy_policy =
                    (if truthy (privacy_policy_url settings) then privacy_policy_url settings
                     else None),
                  seller_tos =
                    (if truthy (terms_of_service_url settings)
                     then terms_of_service_url settings else None),
                  item_accepts_returns =
                    (if returns then Some (accepts_returns settings) else None),
                  return_deadline_in_days =
                    (if returns then Some (return_deadline_days settings) else None),
                  item_accepts_exchanges =
                    (if returns then Some (accepts_exchanges settings) else None),
                  return_policy = (if returns then return_policy_url settings else None),
                  item_target_countries =
                    (if target_countries settings \<noteq> [] then target_countries settings
                     else ''US''),
                  item_store_country =
                    (if store_country settings \<noteq> [] then store_country settings
                     else or_else (billingCountryCodeV2 shopInfo) ''US'')
                \<rparr>)"

subsection \<open>Batch mapper\<close>

text \<open>The two nested loops of \<open>mapProductsToFeed\<close>, pushing onto \<open>feedItems\<close>.\<close>

fun mapVariantsLoop ::
  "('n::{linorder,zero}) js_number_ops \<Rightarrow> 'n ShopifyProduct \<Rightarrow> ShopInfo \<Rightarrow> FeedSettings \<Rightarrow>
   'n ShopifyVariant list \<Rightarrow> OpenAIFeedItem list \<Rightarrow> OpenAIFeedItem list" where
  "mapVariantsLoop js product shopInfo settings [] feedItems = feedItems"
| "mapVariantsLoop js product shopInfo settings (variant # rest) feedItems =
     (case mapVariantToFeedItem js product variant shopInfo settings of
        None \<Rightarrow> mapVariantsLoop js product shopInfo settings rest feedItems
      | Some item \<Rightarrow> mapVariantsLoop js product shopInfo settings rest (feedItems @ [item]))"

fun mapProductsLoop ::
  "('n::{linorder,zero}) js_number_ops \<Rightarrow> ShopInfo \<Rightarrow> FeedSettings \<Rightarrow>
   'n ShopifyProduct list \<Rightarrow> OpenAIFeedItem list \<Rightarrow> OpenAIFeedItem list" where
  "mapProductsLoop js shopInfo settings [] feedItems = feedItems"
| "mapProductsLoop js shopInfo settings (product # rest) feedItems =
     mapProductsLoop js shopInfo settings rest
       (mapVariantsLoop js product shopInfo settings (variants product) feedItems)"

definition mapProductsToFeed ::
  "('n::{linorder,zero}) js_number_ops \<Rightarrow> 'n ShopifyProduct list \<Rightarrow> ShopInfo \<Rightarrow> FeedSettings \<Rightarrow>
   OpenAIFeedItem list" where
  "mapProductsToFeed js products shopInfo settings =
     mapProductsLoop js shopInfo settings products []"

text \<open>
  The own properties of the object literal that \<open>mapVariantToFeedItem\<close> builds, in
  property order. A key first written by the literal keeps its place when a later
  spread overwrites it (\<open>price\<close>); a key only a spread writes follows the keys before
  that spread (\<open>sale_price\<close>).
\<close>

definition optionalMember :: "string \<Rightarrow> ('a \<Rightarrow> json) \<Rightarrow> 'a option \<Rightarrow> (string \<times> json) list" where
  "optionalMember k f v = (case v of None \<Rightarrow> [] | Some x \<Rightarrow> [(k, f x)])"

definition availabilityString :: "availability \<Rightarrow> string" where
  "availabilityString a =
     (case a of in_stock \<Rightarrow> ''in_stock'' | out_of_stock \<Rightarrow> ''out_of_stock''
      | preorder \<Rightarrow> ''preorder'')"

definition feedItemProperties :: "OpenAIFeedItem \<Rightarrow> (string \<times> json) list" where
  "feedItemProperties item =
     [(''is_eligible_search'', JBool (is_eligible_search item)),
      (''is_eligible_checkout'', JBool (is_eligible_checkout item)),
      (''item_id'', JString (item_id item)),
      (''title'', JString (title item)),
      (''description'', JString (description item)),
      (''url'', JString (url item)),
      (''condition'', JString (condition item)),
      (''product_category'', JString (product_category item)),
      (''brand'', JString (brand item)),
      (''image_url'', JString (image_url item))]
     @ optionalMember ''additional_image_urls'' JString (additional_image_urls item)
     @ [(''price'', JString (price item))]
     @ optionalMember ''sale_price'' JString (sale_price item)
     @ [(''availability'', JString (availabilityString (item_availability item))),
        (''group_id'', JString (group_id item)),
        (''listing_has_variations'', JBool (listing_has_variations item))]
     @ optionalMember ''variant_dict'' JString (variant_dict item)
     @ [(''item_group_title'', JString (item_group_title item))]
     @ optionalMember ''color'' JString (color item)
     @ optionalMember ''size'' JString (item_size item)
     @ optionalMember ''offer_id'' JString (offer_id item)
     @ optionalMember ''weight'' JString (weight item)
     @ optionalMember ''item_weight_unit'' JString (item_weight_unit item)
     @ [(''seller_name'', JString (item_seller_name item)),
        (''seller_url'', JString (item_seller_url item))]
     @ optionalMember ''seller_privacy_policy'' JString (seller_privacy_policy item)
     @ optionalMember ''seller_tos'' JString (seller_tos item)
     @ optionalMember ''accepts_returns'' JBool (item_accepts_returns item)
     @ optionalMember ''return_deadline_in_days'' JNumber (return_deadline_in_days item)
     @ optionalMember ''accepts_exchanges'' JBool (item_accepts_exchanges item)
     @ optionalMember ''return_policy'' JString (return_policy item)
     @ [(''target_countries'', JString (item_target_countries item)),
        (''store_country'', JString (item_store_country item))]"

definition stringifyItem :: "OpenAIFeedItem \<Rightarrow> string" where
  "stringifyItem item = stringifyObject (feedItemProperties item)"

definition feedItemsToJsonl :: "OpenAIFeedItem list \<Rightarrow> string" where
  "feedItemsToJsonl items = join [CHR 0x0A] (map stringifyItem items)"

section \<open>Persistent store (the D1 tables of the migration)\<close>

text \<open>
  Each table has a UNIQUE \<open>shop\<close> column and is a map from the shop to the other columns
  of its row. The AUTOINCREMENT \<open>id\<close> columns are left out: no statement of the
  service reads or writes them. An INTEGER or TEXT column without NOT NULL holds an
  \<open>option\<close>.
\<close>

record settings_row =
  col_enable_search :: int
  col_enable_checkout :: int
  col_seller_name :: "string option"
  col_seller_url :: "string option"
  col_privacy_policy_url :: "string option"
  col_terms_of_service_url :: "string option"
  col_return_policy_url :: "string option"
  col_accepts_returns :: "int option"
  col_return_deadline_days :: "int option"
  col_accepts_exchanges :: "int option"
  col_store_country :: "string option"
  col_target_countries :: "string option"
  col_feed_generated_at :: "int option"
  col_product_count :: "int option"
  col_created_at :: int
  col_updated_at :: int

record cache_row =
  col_feed_data :: "string option"
  col_cache_product_count :: "int option"
  col_generated_at :: int

datatype error = Error string | NonError

text \<open>
  The database handle: the two tables, and the outcomes of the statements still to be
  run, in order. \<open>Some e\<close> makes the next statement throw \<open>e\<close> and change nothing;
  \<open>None\<close>, and an exhausted list, let it run.
\<close>

record world =
  feed_settings :: "string \<rightharpoonup> settings_row"
  feed_cache :: "string \<rightharpoonup> cache_row"
  faults :: "error option list"

text \<open>The clocks: \<open>Date.now()\<close> of the worker and \<open>unixepoch() * 1000\<close> of the database.\<close>

record clock =
  dateNow :: int
  unixepochMs :: int

definition nextFault :: "world \<Rightarrow> error option \<times> world" where
  "nextFault w = (case faults w of [] \<Rightarrow> (None, w) | f # fs \<Rightarrow> (f, w\<lparr>faults := fs\<rparr>))"

text \<open>\<open>SELECT * FROM feed_settings WHERE shop = ?\<close>, \<open>.first()\<close>.\<close>

definition selectSettings :: "string \<Rightarrow> world \<Rightarrow> (error + settings_row option) \<times> world" where
  "selectSettings sh w =
     (case nextFault w of
        (Some e, w1) \<Rightarrow> (Inl e, w1)
      | (None, w1) \<Rightarrow> (Inr (feed_settings w1 sh), w1))"

text \<open>
  \<open>INSERT INTO feed_settings (shop, enable_search, enable_checkout, store_country,
  target_countries) VALUES (?, 1, 0, 'US', 'US')\<close>: the other columns take the defaults
  of the migration; a second row for the shop violates the UNIQUE constraint.
\<close>

definition defaultSettingsRow :: "clock \<Rightarrow> settings_row" where
  "defaultSettingsRow clk =
     \<lparr>col_enable_search = 1, col_enable_checkout = 0,
      col_seller_name = None, col_seller_url = None, col_privacy_policy_url = None,
      col_terms_of_service_url = None, col_return_policy_url = None,
      col_accepts_returns = Some 1, col_return_deadline_days = Some 30,
      col_accepts_exchanges = Some 1,
      col_store_country = Some ''US'', col_target_countries = Some ''US'',
      col_feed_generated_at = None, col_product_count = Some 0,
      col_created_at = unixepochMs clk, col_updated_at = unixepochMs clk\<rparr>"

definition insertDefaultSettings :: "clock \<Rightarrow> string \<Rightarrow> world \<Rightarrow> (error + unit) \<times> world" where
  "insertDefaultSettings clk sh w =
     (case nextFault w of
        (Some e, w1) \<Rightarrow> (Inl e, w1)
      | (None, w1) \<Rightarrow>
          (if feed_settings w1 sh \<noteq> None
           then (Inl (Error ''UNIQUE constraint failed: feed_settings.shop''), w1)
           else (Inr (), w1\<lparr>feed_settings := (feed_settings w1)(sh \<mapsto> defaultSettingsRow clk)\<rparr>)))"

section \<open>Settings store (feed-service.server.ts)\<close>

text \<open>\<open>Boolean(x)\<close> of a column value, and \<open>x || d\<close> for a number and for a string column.\<close>

definition Boolean_int :: "int \<Rightarrow> bool" where
  "Boolean_int i = (i \<noteq> 0)"

definition Boolean_col :: "int option \<Rightarrow> bool" where
  "Boolean_col v = (case v of None \<Rightarrow> False | Some i \<Rightarrow> i \<noteq> 0)"

definition number_or :: "int option \<Rightarrow> int \<Rightarrow> int" where
  "number_or v d = (case v of None \<Rightarrow> d | Some i \<Rightarrow> (if i = 0 then d else i))"

definition rowToSettings :: "string \<Rightarrow> settings_row \<Rightarrow> FeedSettings" where
  "rowToSettings sh row =
     \<lparr>shop = sh,
      enable_search = Boolean_int (col_enable_search row),
      enable_checkout = Boolean_int (col_enable_checkout row),
      seller_name = col_seller_name row,
      seller_url = col_seller_url row,
      privacy_policy_url = col_privacy_policy_url row,
      terms_of_service_url = col_terms_of_service_url row,
      return_policy_url = col_return_policy_url row,
      accepts_returns = Boolean_col (col_accepts_returns row),
      return_deadline_days = number_or (col_return_deadline_days row) 30,
      accepts_exchanges = Boolean_col (col_accepts_exchanges row),
      store_country = or_else (col_store_country row) ''US'',
      target_countries = or_else (col_target_countries row) ''US''\<rparr>"

definition defaultSettings :: "string \<Rightarrow> FeedSettings" where
  "defaultSettings sh =
     \<lparr>shop = sh, enable_search = True, enable_checkout = False,
      seller_name = None, seller_url = None, privacy_policy_url = None,
      terms_of_service_url = None, return_policy_url = None,
      accepts_returns = True, return_deadline_days = 30, accepts_exchanges = True,
      store_country = ''US'', target_countries = ''US''\<rparr>"

definition getFeedSettings :: "clock \<Rightarrow> string \<Rightarrow> world \<Rightarrow> (error + FeedSettings) \<times> world" where
  "getFeedSettings clk sh w =
     (case selectSettings sh w of
        (Inl e, w1) \<Rightarrow> (Inl e, w1)
      | (Inr (Some row), w1) \<Rightarrow> (Inr (rowToSettings sh row), w1)
      | (Inr None, w1) \<Rightarrow>
          (case insertDefaultSettings clk sh w1 of
             (Inl e, w2) \<Rightarrow> (Inl e, w2)
           | (Inr u, w2) \<Rightarrow> (Inr (defaultSettings sh), w2)))"

text \<open>
  \<open>Partial<FeedSettings>\<close>: \<open>None\<close> is a key that is absent (or \<open>undefined\<close>). A field of
  type \<open>string | null\<close> may be present with the value \<open>null\<close>, which is \<open>Some None\<close>.
\<close>

record FeedSettingsUpdates =
  upd_shop :: "string option"
  upd_enable_search :: "bool option"
  upd_enable_checkout :: "bool option"
  upd_seller_name :: "string option option"
  upd_seller_url :: "string option option"
  upd_privacy_policy_url :: "string option option"
  upd_terms_of_service_url :: "string option option"
  upd_return_policy_url :: "string option option"
  upd_accepts_returns :: "bool option"
  upd_return_deadline_days :: "int option"
  upd_accepts_exchanges :: "bool option"
  upd_store_country :: "string option"
  upd_target_countries :: "string option"

text \<open>One \<open>column = ?\<close> of the SET clause together with the value bound to it.\<close>

datatype assignment =
    Set_enable_search int
  | Set_enable_checkout int
  | Set_seller_name "string option"
  | Set_seller_url "string option"
  | Set_privacy_policy_url "string option"
  | Set_terms_of_service_url "string option"
  | Set_return_policy_url "string option"
  | Set_accepts_returns int
  | Set_return_deadline_days int
  | Set_accepts_exchanges int
  | Set_store_country string
  | Set_target_countries string
  | Set_feed_generated_at int
  | Set_product_count int
  | Set_updated_at int

fun assign :: "settings_row \<Rightarrow> assignment \<Rightarrow> settings_row" where
  "assign row (Set_enable_search v) = row\<lparr>col_enable_search := v\<rparr>"
| "assign row (Set_enable_checkout v) = row\<lparr>col_enable_checkout := v\<rparr>"
| "assign row (Set_seller_name v) = row\<lparr>col_seller_name := v\<rparr>"
| "assign row (Set_seller_url v) = row\<lparr>col_seller_url := v\<rparr>"
| "assign row (Set_privacy_policy_url v) = row\<lparr>col_privacy_policy_url := v\<rparr>"
| "assign row (Set_terms_of_service_url v) = row\<lparr>col_terms_of_service_url := v\<rparr>"
| "assign row (Set_return_policy_url v) = row\<lparr>col_return_policy_url := v\<rparr>"
| "assign row (Set_accepts_returns v) = row\<lparr>col_accepts_returns := Some v\<rparr>"
| "assign row (Set_return_deadline_days v) = row\<lparr>col_return_deadline_days := Some v\<rparr>"
| "assign row (Set_accepts_exchanges v) = row\<lparr>col_accepts_exchanges := Some v\<rparr>"
| "assign row (Set_store_country v) = row\<lparr>col_store_country := Some v\<rparr>"
| "assign row (Set_target_countries v) = row\<lparr>col_target_countries := Some v\<rparr>"
| "assign row (Set_feed_generated_at v) = row\<lparr>col_feed_generated_at := Some v\<rparr>"
| "assign row (Set_product_count v) = row\<lparr>col_product_count := Some v\<rparr>"
| "assign row (Set_updated_at v) = row\<lparr>col_updated_at := v\<rparr>"

text \<open>
  \<open>UPDATE feed_settings SET ... WHERE shop = ?\<close>: the assignments apply from left to
  right to the row of the shop; without such a row the statement changes nothing.
\<close>

definition updateSettingsRow :: "string \<Rightarrow> assignment list \<Rightarrow> world \<Rightarrow> (error + unit) \<times> world" where
  "updateSettingsRow sh sets w =
     (case nextFault w of
        (Some e, w1) \<Rightarrow> (Inl e, w1)
      | (None, w1) \<Rightarrow>
          (case feed_settings w1 sh of
             None \<Rightarrow> (Inr (), w1)
           | Some row \<Rightarrow>
               (Inr (), w1\<lparr>feed_settings := (feed_settings w1)(sh \<mapsto> foldl assign row sets)\<rparr>)))"

definition boolToInt :: "bool \<Rightarrow> int" where
  "boolToInt b = (if b then 1 else 0)"

text \<open>One \<open>if (updates.x !== undefined) { fields.push(...); values.push(...) }\<close>.\<close>

definition pushField :: "('a \<Rightarrow> assignment) \<Rightarrow> 'a option \<Rightarrow> assignment list \<Rightarrow> assignment list" where
  "pushField f v sets = (case v of None \<Rightarrow> sets | Some x \<Rightarrow> sets @ [f x])"

definition updateFields :: "FeedSettingsUpdates \<Rightarrow> assignment list" where
  "updateFields updates =
     (pushField Set_target_countries (upd_target_countries updates)
     (pushField Set_store_country (upd_store_country updates)
     (pushField (\<lambda>b. Set_accepts_exchanges (boolToInt b)) (upd_accepts_exchanges updates)
     (pushField Set_return_deadline_days (upd_return_deadline_days updates)
     (pushField (\<lambda>b. Set_accepts_returns (boolToInt b)) (upd_accepts_returns updates)
     (pushField Set_return_policy_url (upd_return_policy_url updates)
     (pushField Set_terms_of_service_url (upd_terms_of_service_url updates)
     (pushField Set_privacy_policy_url (upd_privacy_policy_url updates)
     (pushField Set_seller_url (upd_seller_url updates)
     (pushField Set_seller_name (upd_seller_name updates)
     (pushField (\<lambda>b. Set_enable_checkout (boolToInt b)) (upd_enable_checkout updates)
     (pushField (\<lambda>b. Set_enable_search (boolToInt b)) (upd_enable_search updates)
       []))))))))))))"

definition updateFeedSettings ::
  "clock \<Rightarrow> string \<Rightarrow> FeedSettingsUpdates \<Rightarrow> world \<Rightarrow> (error + unit) \<times> world" where
  "updateFeedSettings clk sh updates w =
     (case getFeedSettings clk sh w of
        (Inl e, w1) \<Rightarrow> (Inl e, w1)
      | (Inr ensured, w1) \<Rightarrow>
          (let sets = updateFields updates
           in if sets = [] then (Inr (), w1)
              else updateSettingsRow sh (sets @ [Set_updated_at (dateNow clk)]) w1))"

section \<open>Feed cache and orchestrator (feed-service.server.ts)\<close>

text \<open>
  \<open>INSERT OR REPLACE INTO feed_cache (shop, feed_data, product_count, generated_at)
  VALUES (?, ?, ?, ?)\<close>.
\<close>

definition replaceCacheRow :: "string \<Rightarrow> string \<Rightarrow> int \<Rightarrow> int \<Rightarrow> world \<Rightarrow> (error + unit) \<times> world" where
  "replaceCacheRow sh jsonl n now w =
     (case nextFault w of
        (Some e, w1) \<Rightarrow> (Inl e, w1)
      | (None, w1) \<Rightarrow>
          (Inr (), w1\<lparr>feed_cache := (feed_cache w1)(sh \<mapsto>
             \<lparr>col_feed_data = Some jsonl, col_cache_product_count = Some n,
              col_generated_at = now\<rparr>)\<rparr>))"

text \<open>
  The external collaborators of one generation: what \<open>fetchShopInfo(admin)\<close> and
  \<open>fetchAllProducts(admin)\<close> resolve to, or the value they throw.
\<close>

record 'n upstream =
  shopInfoResult :: "error + ShopInfo"
  productsResult :: "error + 'n ShopifyProduct list"

record generate_result =
  success :: bool
  productCount :: int
  error_message :: "string option"

definition failure :: "error \<Rightarrow> generate_result" where
  "failure e =
     \<lparr>success = False, productCount = 0,
      error_message = Some (case e of Error m \<Rightarrow> m | NonError \<Rightarrow> ''Unknown error'')\<rparr>"

text \<open>
  \<open>generateFeed\<close>. \<open>Promise.all\<close> starts \<open>fetchShopInfo\<close> and \<open>getFeedSettings\<close> together,
  so the statements of \<open>getFeedSettings\<close> run whatever the fetch does; a rejection of
  either one is caught. Every later step runs only after the earlier ones resolved.
\<close>

definition generateFeed ::
  "('n::{linorder,zero}) js_number_ops \<Rightarrow> clock \<Rightarrow> 'n upstream \<Rightarrow> string \<Rightarrow> world \<Rightarrow>
   generate_result \<times> world" where
  "generateFeed js clk admin sh w =
     (case getFeedSettings clk sh w of (settingsResult, w1) \<Rightarrow>
      (case shopInfoResult admin of
         Inl e \<Rightarrow> (failure e, w1)
       | Inr shopInfo \<Rightarrow>
      (case settingsResult of
         Inl e \<Rightarrow> (failure e, w1)
       | Inr settings \<Rightarrow>
      (case productsResult admin of
         Inl e \<Rightarrow> (failure e, w1)
       | Inr products \<Rightarrow>
          (let feedItems = mapProductsToFeed js products shopInfo settings;
               jsonl = feedItemsToJsonl feedItems;
               now = dateNow clk
           in case replaceCacheRow sh jsonl (int (length feedItems)) now w1 of
                (Inl e, w2) \<Rightarrow> (failure e, w2)
              | (Inr u, w2) \<Rightarrow>
                  (case updateSettingsRow sh
                          [Set_feed_generated_at now,
                           Set_product_count (int (length feedItems)),
                           Set_updated_at now] w2 of
                     (Inl e, w3) \<Rightarrow> (failure e, w3)
                   | (Inr u', w3) \<Rightarrow>
                       (\<lparr>success = True, productCount = int (length feedItems),
                         error_message = None\<rparr>, w3)))))))"

record cached_feed =
  feedData :: string
  cachedProductCount :: "int option"
  generatedAt :: int

text \<open>
  \<open>getCachedFeed\<close>: \<open>SELECT feed_data, product_count, generated_at FROM feed_cache WHERE
  shop = ?\<close>, then the guard \<open>if (!row || !row.feed_data) return null\<close>. A failing
  statement throws to the caller.
\<close>

definition getCachedFeed :: "string \<Rightarrow> world \<Rightarrow> (error + cached_feed option) \<times> world" where
  "getCachedFeed sh w =
     (case nextFault w of
        (Some e, w1) \<Rightarrow> (Inl e, w1)
      | (None, w1) \<Rightarrow>
          (case feed_cache w1 sh of
             None \<Rightarrow> (Inr None, w1)
           | Some row \<Rightarrow>
               (if \<not> truthy (col_feed_data row) then (Inr None, w1)
                else (Inr (Some \<lparr>feedData = or_else (col_feed_data row) [],
                                 cachedProductCount = col_cache_product_count row,
                                 generatedAt = col_generated_at row\<rparr>), w1))))"

section \<open>The partial update, field by field\<close>

text \<open>
  The update law in the specification's words: \<open>noFieldPresent\<close> says that the partial
  input carries none of the twelve recognised fields, and \<open>overwritePresent\<close> overwrites
  the fields that are present (booleans as 0/1), sets \<open>updated_at\<close> and keeps every
  other column. Both are compared with \<open>updateFeedSettings\<close> below.
\<close>

definition noFieldPresent :: "FeedSettingsUpdates \<Rightarrow> bool" where
  "noFieldPresent updates =
     (upd_enable_search updates = None \<and> upd_enable_checkout updates = None \<and>
      upd_seller_name updates = None \<and> upd_seller_url updates = None \<and>
      upd_privacy_policy_url updates = None \<and> upd_terms_of_service_url updates = None \<and>
      upd_return_policy_url updates = None \<and> upd_accepts_returns updates = None \<and>
      upd_return_deadline_days updates = None \<and> upd_accepts_exchanges updates = None \<and>
      upd_store_country updates = None \<and> upd_target_countries updates = None)"

definition overwritePresent :: "FeedSettingsUpdates \<Rightarrow> int \<Rightarrow> settings_row \<Rightarrow> settings_row" where
  "overwritePresent updates now row =
     \<lparr>col_enable_search =
        (case upd_enable_search updates of None \<Rightarrow> col_enable_search row
         | Some b \<Rightarrow> boolToInt b),
      col_enable_checkout =
        (case upd_enable_checkout updates of None \<Rightarrow> col_enable_checkout row
         | Some b \<Rightarrow> boolToInt b),
      col_seller_name =
        (case upd_seller_name updates of None \<Rightarrow> col_seller_name row | Some v \<Rightarrow> v),
      col_seller_url =
        (case upd_seller_url updates of None \<Rightarrow> col_seller_url row | Some v \<Rightarrow> v),
      col_privacy_policy_url =
        (case upd_privacy_policy_url updates of None \<Rightarrow> col_privacy_policy_url row
         | Some v \<Rightarrow> v),
      col_terms_of_service_url =
        (case upd_terms_of_service_url updates of None \<Rightarrow> col_terms_of_service_url row
         | Some v \<Rightarrow> v),
      col_return_policy_url =
        (case upd_return_policy_url updates of None \<Rightarrow> col_return_policy_url row
         | Some v \<Rightarrow> v),
      col_accepts_returns =
        (case upd_accepts_returns updates of None \<Rightarrow> col_accepts_returns row
         | Some b \<Rightarrow> Some (boolToInt b)),
      col_return_deadline_days =
        (case upd_return_deadline_days updates of None \<Rightarrow> col_return_deadline_days row
         | Some v \<Rightarrow> Some v),
      col_accepts_exchanges =
        (case upd_accepts_exchanges updates of None \<Rightarrow> col_accepts_exchanges row
         | Some b \<Rightarrow> Some (boolToInt b)),
      col_store_country =
        (case upd_store_country updates of None \<Rightarrow> col_store_country row
         | Some v \<Rightarrow> Some v),
      col_target_countries =
        (case upd_target_countries updates of None \<Rightarrow> col_target_countries row
         | Some v \<Rightarrow> Some v),
      col_feed_generated_at = col_feed_generated_at row,
      col_product_count = col_product_count row,
      col_created_at = col_created_at row,
      col_updated_at = now\<rparr>"


section \<open>The text normalizer, stage by stage\<close>










section \<open>Reading a feed line back\<close>

text \<open>
  What "parseable as a JSON object" means for a line of the feed: a reader for JSON
  objects written without insignificant white space whose members are strings, the
  literals \<open>true\<close> and \<open>false\<close>, and integers without a fraction or an exponent. It
  follows the JSON grammar on this fragment: a raw control character inside a string
  and a numeral with a leading zero are refused, every escape of the grammar is read,
  and a \<open>\u\<close> escape is read when its code unit is below U+0100.
\<close>

definition hexValue :: "char \<Rightarrow> nat option" where
  "hexValue c =
     (let n = of_char c :: nat
      in if 48 \<le> n \<and> n \<le> 57 then Some (n - 48)
         else if 97 \<le> n \<and> n \<le> 102 then Some (n - 87)
         else if 65 \<le> n \<and> n \<le> 70 then Some (n - 55)
         else None)"

definition unescape :: "string \<Rightarrow> (char \<times> string) option" where
  "unescape s =
     (case s of
        [] \<Rightarrow> None
      | e # r \<Rightarrow>
          (if e = CHR 0x22 then Some (CHR 0x22, r)
           else if e = CHR 0x5C then Some (CHR 0x5C, r)
           else if e = CHR ''/'' then Some (CHR ''/'', r)
           else if e = CHR ''b'' then Some (CHR 0x08, r)
           else if e = CHR ''f'' then Some (CHR 0x0C, r)
           else if e = CHR ''n'' then Some (CHR 0x0A, r)
           else if e = CHR ''r'' then Some (CHR 0x0D, r)
           else if e = CHR ''t'' then Some (CHR 0x09, r)
           else if e = CHR ''u'' \<and> length r \<ge> 4 then
             (case map hexValue (take 4 r) of
                [Some a, Some b, Some x, Some y] \<Rightarrow>
                  (if a = 0 \<and> b = 0 then Some (char_of (16 * x + y), drop 4 r) else None)
              | _ \<Rightarrow> None)
           else None))"

function parseStringBody :: "string \<Rightarrow> string \<Rightarrow> (string \<times> string) option" where
  "parseStringBody acc [] = None"
| "parseStringBody acc (c # cs) =
     (if c = CHR 0x22 then Some (acc, cs)
      else if c = CHR 0x5C then
        (case unescape cs of
           None \<Rightarrow> None
         | Some (ch, r) \<Rightarrow> parseStringBody (acc @ [ch]) r)
      else if (of_char c :: nat) < 32 then None
      else parseStringBody (acc @ [c]) cs)"
  by pat_completeness auto
termination
proof (relation "measure (\<lambda>(acc, s). length s)")
  show "wf (measure (\<lambda>(acc, s). length s))" by simp
next
  fix acc :: string and c :: char and cs x2 ch r
  assume "unescape cs = Some x2" and "(ch, r) = x2"
  then have "unescape cs = Some (ch, r)" by simp
  then have "length r \<le> length cs"
    by (cases cs) (auto simp: unescape_def split: if_splits list.splits option.splits)
  then show "((acc @ [ch], r), (acc, c # cs)) \<in> measure (\<lambda>(acc, s). length s)" by simp
next
  fix acc :: string and c :: char and cs
  show "((acc @ [c], cs), (acc, c # cs)) \<in> measure (\<lambda>(acc, s). length s)" by simp
qed

definition isDigit :: "char \<Rightarrow> bool" where
  "isDigit c = (48 \<le> (of_char c :: nat) \<and> (of_char c :: nat) \<le> 57)"

definition parseNumber :: "string \<Rightarrow> (json \<times> string) option" where
  "parseNumber s =
     (let negative = (s \<noteq> [] \<and> hd s = CHR ''-'');
          s1 = (if negative then tl s else s);
          digits = takeWhile isDigit s1;
          rest = dropWhile isDigit s1
      in if digits = [] \<or> (length digits > 1 \<and> hd digits = CHR ''0'') then None
         else Some (JNumber (if negative then - int (natOfDigits digits)
                             else int (natOfDigits digits)), rest))"

definition parseValue :: "string \<Rightarrow> (json \<times> string) option" where
  "parseValue s =
     (case s of
        [] \<Rightarrow> None
      | c # cs \<Rightarrow>
          if c = CHR 0x22
          then map_option (\<lambda>(v, r). (JString v, r)) (parseStringBody [] cs)
          else if prefix ''true'' s then Some (JBool True, drop 4 s)
          else if prefix ''false'' s then Some (JBool False, drop 5 s)
          else parseNumber s)"

function parseMembers :: "string \<Rightarrow> (string \<times> json) list option" where
  "parseMembers [] = None"
| "parseMembers (q # s1) =
     (if q \<noteq> CHR 0x22 then None
      else (case parseStringBody [] s1 of
              None \<Rightarrow> None
            | Some (k, s2) \<Rightarrow>
                (case s2 of
                   [] \<Rightarrow> None
                 | colon # s3 \<Rightarrow>
                     if colon \<noteq> CHR '':'' then None
                     else (case parseValue s3 of
                             None \<Rightarrow> None
                           | Some (v, s4) \<Rightarrow>
                               (case s4 of
                                  [] \<Rightarrow> None
                                | d # s5 \<Rightarrow>
                                    if d = CHR ''}''
                                    then (if s5 = [] then Some [(k, v)] else None)
                                    else if d = CHR '',''
                                    then map_option (\<lambda>ms. (k, v) # ms) (parseMembers s5)
                                    else None)))))"
  by pat_completeness auto
termination
proof (relation "measure length")
  show "wf (measure length)" by simp
next
  fix q :: char and s1 x2 k s2 colon s3 x2a v s4 d s5
  assume str: "parseStringBody [] s1 = Some x2" "(k, s2) = x2" "s2 = colon # s3"
    and val: "parseValue s3 = Some x2a" "(v, s4) = x2a" "s4 = d # s5"
  have body: "\<And>acc s r rest. parseStringBody acc s = Some (r, rest) \<Longrightarrow> length rest \<le> length s"
  proof -
    fix acc s r rest
    show "parseStringBody acc s = Some (r, rest) \<Longrightarrow> length rest \<le> length s"
    proof (induction acc s rule: parseStringBody.induct)
      case (1 acc)
      then show ?case by simp
    next
      case (2 acc c cs)
      show ?case
      proof (cases "c = CHR 0x22")
        case True
        with "2.prems" show ?thesis by simp
      next
        case nq: False
        show ?thesis
        proof (cases "c = CHR 0x5C")
          case True
          with nq "2.prems" obtain ch r' where u: "unescape cs = Some (ch, r')"
            and p: "parseStringBody (acc @ [ch]) r' = Some (r, rest)"
            by (auto split: option.splits)
          from u have "length r' \<le> length cs"
            by (cases cs) (auto simp: unescape_def split: if_splits list.splits option.splits)
          moreover have "length rest \<le> length r'"
            using "2.IH"(1) [OF nq True _ _ p] u by simp
          ultimately show ?thesis by simp
        next
          case False
          with nq "2.prems" have lt: "\<not> (of_char c :: nat) < 32"
            and p: "parseStringBody (acc @ [c]) cs = Some (r, rest)"
            by (auto split: if_splits)
          have "length rest \<le> length cs" using "2.IH"(2) [OF nq False lt p] .
          then show ?thesis by simp
        qed
      qed
    qed
  qed
  have num: "\<And>s j rest. parseNumber s = Some (j, rest) \<Longrightarrow> length rest \<le> length s"
  proof -
    fix s :: string and j rest
    assume "parseNumber s = Some (j, rest)"
    then have "rest = dropWhile isDigit (if s \<noteq> [] \<and> hd s = CHR ''-'' then tl s else s)"
      by (auto simp: parseNumber_def Let_def split: if_splits)
    then show "length rest \<le> length s"
      using length_dropWhile_le [of isDigit "tl s"] length_dropWhile_le [of isDigit s]
      by (auto split: if_splits)
  qed
  have "length s4 \<le> length s3"
    using val(1,2)
    by (auto simp: parseValue_def split: list.splits if_splits prod.splits dest!: body num)
  moreover have "length s2 \<le> length s1"
    using str(1,2) body [of "[]" s1 k s2] by auto
  ultimately show "(s5, q # s1) \<in> measure length"
    using str(3) val(3) by simp
qed

definition parseObject :: "string \<Rightarrow> (string \<times> json) list option" where
  "parseObject s =
     (case s of
        [] \<Rightarrow> None
      | c # r \<Rightarrow>
          if c \<noteq> CHR ''{'' then None
          else if r = ''}'' then Some []
          else parseMembers r)"

section \<open>Sample inputs\<close>

text \<open>
  A table standing for \<open>parseFloat\<close> on the two price strings of the samples, with the
  numeric values counted in hundredths.
\<close>

definition sampleNumberOps :: "int js_number_ops" where
  "sampleNumberOps =
     \<lparr>parseFloat = (\<lambda>s. if s = ''10.00'' then Some 1000
                         else if s = ''8.00'' then Some 800 else None),
      numberToString = showInt\<rparr>"

definition mugVariant :: "int ShopifyVariant" where
  "mugVariant =
     \<lparr>v_id = ''gid://shopify/ProductVariant/22'', v_title = ''Default Title'',
      sku = None, barcode = None, v_price = ''10.00'', compareAtPrice = None,
      availableForSale = True, inventoryQuantity = None, inventoryPolicy = ''DENY'',
      v_weight = None, weightUnit = ''KILOGRAMS'',
      selectedOptions = [\<lparr>opt_name = ''Title'', opt_value = ''Default Title''\<rparr>],
      v_image = None\<rparr>"

definition discountedVariant :: "int ShopifyVariant" where
  "discountedVariant = mugVariant\<lparr>v_price := ''8.00'', compareAtPrice := Some ''10.00''\<rparr>"

definition skuVariant :: "int ShopifyVariant" where
  "skuVariant = mugVariant\<lparr>sku := Some ''MUG-1''\<rparr>"

definition continueVariant :: "int ShopifyVariant" where
  "continueVariant =
     mugVariant\<lparr>inventoryPolicy := ''CONTINUE'', availableForSale := False,
                inventoryQuantity := Some 0\<rparr>"

definition soldOutVariant :: "int ShopifyVariant" where
  "soldOutVariant = mugVariant\<lparr>availableForSale := False, inventoryQuantity := Some 0\<rparr>"

definition untrackedVariant :: "int ShopifyVariant" where
  "untrackedVariant = mugVariant\<lparr>availableForSale := False, inventoryQuantity := None\<rparr>"

definition mugProduct :: "int ShopifyProduct" where
  "mugProduct =
     \<lparr>p_id = ''gid://shopify/Product/11'', p_title = ''Mug'',
      descriptionHtml = ''<p>A mug</p>'', p_description = [], handle = ''mug'',
      vendor = [], productType = [], tags = [], status = ''ACTIVE'', createdAt = [],
      updatedAt = [], onlineStoreUrl = None, options = [],
      images = [\<lparr>img_url = ''https://x/m.jpg'', altText = None\<rparr>],
      variants = [mugVariant]\<rparr>"

definition draftProduct :: "int ShopifyProduct" where
  "draftProduct = mugProduct\<lparr>status := ''DRAFT''\<rparr>"

definition sampleShopInfo :: ShopInfo where
  "sampleShopInfo =
     \<lparr>s_name = ''Mug Shop'', s_url = ''https://mug-shop.example/'', primaryDomain = None,
      currencyCode = ''USD'', billingCountry = None, billingCountryCodeV2 = None,
      shipsToCountries = []\<rparr>"

definition sampleShop :: string where
  "sampleShop = ''mug-shop.myshopify.com''"

definition sampleClock :: clock where
  "sampleClock = \<lparr>dateNow = 1700000000123, unixepochMs = 1700000000000\<rparr>"

definition emptyWorld :: world where
  "emptyWorld = \<lparr>feed_settings = Map.empty, feed_cache = Map.empty, faults = []\<rparr>"

definition emptyCatalog :: "int upstream" where
  "emptyCatalog = \<lparr>shopInfoResult = Inr sampleShopInfo, productsResult = Inr []\<rparr>"

definition failingCatalog :: "int upstream" where
  "failingCatalog =
     \<lparr>shopInfoResult = Inr sampleShopInfo, productsResult = Inl (Error ''fetch failed'')\<rparr>"

definition stampFailureWorld :: world where
  "stampFailureWorld = emptyWorld\<lparr>faults := [None, None, None, Some (Error ''D1_ERROR'')]\<rparr>"

definition settledWorld :: world where
  "settledWorld =
     emptyWorld\<lparr>feed_settings := [sampleShop \<mapsto> defaultSettingsRow sampleClock]\<rparr>"

definition mugCatalog :: "int upstream" where
  "mugCatalog = \<lparr>shopInfoResult = Inr sampleShopInfo, productsResult = Inr [mugProduct]\<rparr>"

definition searchOffRow :: settings_row where
  "searchOffRow = (defaultSettingsRow sampleClock)\<lparr>col_enable_search := 0\<rparr>"

definition searchOffWorld :: world where
  "searchOffWorld =
     \<lparr>feed_settings = [sampleShop \<mapsto> searchOffRow], feed_cache = Map.empty,
      faults = [None, None, Some (Error ''D1_ERROR'')]\<rparr>"

definition onlySearchOff :: FeedSettingsUpdates where
  "onlySearchOff =
     \<lparr>upd_shop = None, upd_enable_search = Some False, upd_enable_checkout = None,
      upd_seller_name = None, upd_seller_url = None, upd_privacy_policy_url = None,
      upd_terms_of_service_url = None, upd_return_policy_url = None,
      upd_accepts_returns = None, upd_return_deadline_days = None,
      upd_accepts_exchanges = None, upd_store_country = None,
      upd_target_countries = None\<rparr>"

definition sampleItem :: OpenAIFeedItem where
  "sampleItem =
     the (mapVariantToFeedItem sampleNumberOps mugProduct mugVariant sampleShopInfo
            (defaultSettings sampleShop))"

section \<open>Properties\<close>

subsection \<open>Identifiers, skipping and the batch loops\<close>

lemma split_from_no_sep: "c \<notin> set n \<Longrightarrow> split_from c cur n = [cur @ n]"
  by (induction n arbitrary: cur) auto

lemma split_from_sep:
  "c \<notin> set g \<Longrightarrow> split_from c cur (g @ c # n) = (cur @ g) # split_from c [] n"
  by (induction g arbitrary: cur) auto

lemma split_from_nonempty: "split_from c cur s \<noteq> []"
  by (induction s arbitrary: cur) auto

lemma last_split_from_append:
  "last (split_from c cur (g @ c # n)) = last (split_from c [] n)"
  by (induction g arbitrary: cur) (auto simp: split_from_nonempty)

lemma extractShopifyId_last_segment:
  "CHR ''/'' \<notin> set n \<Longrightarrow> extractShopifyId (g @ CHR ''/'' # n) = n"
  by (simp add: extractShopifyId_def split_on_def last_split_from_append split_from_no_sep)

lemma mapVariantToFeedItem_None_iff:
  "mapVariantToFeedItem js p v si st = None \<longleftrightarrow>
     status p \<noteq> ''ACTIVE'' \<or> resolveMainImage p v = []"
  by (simp add: mapVariantToFeedItem_def Let_def)

lemma map_filter_eligible:
  "List.map_filter (\<lambda>v. mapVariantToFeedItem js p v si st) vs =
   map (\<lambda>v. the (mapVariantToFeedItem js p v si st))
     (filter (\<lambda>v. status p = ''ACTIVE'' \<and> resolveMainImage p v \<noteq> []) vs)"
proof (induction vs)
  case Nil
  show ?case by (simp add: List.map_filter_simps)
next
  case (Cons v vs)
  show ?case
  proof (cases "mapVariantToFeedItem js p v si st")
    case None
    then have "\<not> (status p = ''ACTIVE'' \<and> resolveMainImage p v \<noteq> [])"
      using mapVariantToFeedItem_None_iff [of js p v si st] by blast
    with None Cons.IH show ?thesis by (simp add: List.map_filter_simps)
  next
    case (Some r)
    then have "status p = ''ACTIVE'' \<and> resolveMainImage p v \<noteq> []"
      using mapVariantToFeedItem_None_iff [of js p v si st] by auto
    with Some Cons.IH show ?thesis by (simp add: List.map_filter_simps)
  qed
qed

lemma mapVariantsLoop_acc:
  "mapVariantsLoop js p si st vs acc =
     acc @ List.map_filter (\<lambda>v. mapVariantToFeedItem js p v si st) vs"
  by (induction vs arbitrary: acc) (auto simp: List.map_filter_simps split: option.splits)

lemma mapProductsLoop_acc:
  "mapProductsLoop js si st ps acc =
     acc @ concat (map (\<lambda>p. List.map_filter (\<lambda>v. mapVariantToFeedItem js p v si st) (variants p)) ps)"
  by (induction ps arbitrary: acc) (auto simp: mapVariantsLoop_acc)

lemma resolveMainImage_empty_iff:
  "resolveMainImage p v = [] \<longleftrightarrow>
     \<not> truthy (map_option img_url (v_image v)) \<and>
     (images p = [] \<or> img_url (hd (images p)) = [])"
  by (cases "v_image v"; cases "images p")
     (auto simp: resolveMainImage_def or_else_def truthy_def)

subsection \<open>The store\<close>

lemma nextFault_tables:
  "nextFault w = (f, w1) \<Longrightarrow> feed_settings w1 = feed_settings w \<and> feed_cache w1 = feed_cache w"
  by (auto simp: nextFault_def split: list.splits)

lemma getFeedSettings_effect:
  assumes "getFeedSettings clk sh w = (r, w1)"
  shows "feed_cache w1 = feed_cache w"
    and "feed_settings w1 = feed_settings w \<or>
         (feed_settings w sh = None \<and> (\<exists>st. r = Inr st) \<and>
          feed_settings w1 = (feed_settings w)(sh \<mapsto> defaultSettingsRow clk))"
  using assms
  by (auto simp: getFeedSettings_def selectSettings_def insertDefaultSettings_def
      dest!: nextFault_tables split: prod.splits sum.splits option.splits if_splits)

lemma replaceCacheRow_effect:
  assumes "replaceCacheRow sh jsonl n now w = (r, w1)"
  shows "feed_settings w1 = feed_settings w"
    and "r = Inr () \<Longrightarrow> feed_cache w1 = (feed_cache w)(sh \<mapsto>
             \<lparr>col_feed_data = Some jsonl, col_cache_product_count = Some n,
              col_generated_at = now\<rparr>)"
    and "r \<noteq> Inr () \<Longrightarrow> feed_cache w1 = feed_cache w"
  using assms
  by (auto simp: replaceCacheRow_def dest!: nextFault_tables split: prod.splits option.splits)

lemma updateSettingsRow_effect:
  assumes "updateSettingsRow sh sets w = (r, w1)"
  shows "feed_cache w1 = feed_cache w"
    and "r \<noteq> Inr () \<Longrightarrow> feed_settings w1 = feed_settings w"
    and "s \<noteq> sh \<Longrightarrow> feed_settings w1 s = feed_settings w s"
  using assms
  by (auto simp: updateSettingsRow_def dest!: nextFault_tables split: prod.splits option.splits)

lemma generateFeed_stamp_cases:
  assumes gen: "generateFeed js clk admin sh w = (r, w')" and fail: "\<not> success r"
    and g: "getFeedSettings clk sh w = (sr, w1)"
  shows "w' = w1 \<or>
    (\<exists>shopInfo settings products w2.
       sr = Inr settings \<and>
       shopInfoResult admin = Inr shopInfo \<and> productsResult admin = Inr products \<and>
       (\<exists>rr. replaceCacheRow sh (feedItemsToJsonl (mapProductsToFeed js products shopInfo settings))
            (int (length (mapProductsToFeed js products shopInfo settings))) (dateNow clk) w1 = (rr, w2) \<and>
       ((\<exists>e. rr = Inl e \<and> w' = w2) \<or>
        (rr = Inr () \<and> (\<exists>e sets. updateSettingsRow sh sets w2 = (Inl e, w') \<and> r = failure e)))))"
  using gen fail g
  by (auto simp: generateFeed_def Let_def failure_def split: sum.splits prod.splits)

lemma updateSettingsRow_fail_faults:
  "updateSettingsRow sh sets w2 = (Inl e, w') \<Longrightarrow> faults w2 = Some e # faults w'"
  by (auto simp: updateSettingsRow_def nextFault_def split: list.splits option.splits)

lemma replaceCacheRow_ok_faults:
  "replaceCacheRow sh jsonl n now w1 = (Inr u, w2) \<Longrightarrow>
     (faults w1 = [] \<and> faults w2 = []) \<or> faults w1 = None # faults w2"
  by (auto simp: replaceCacheRow_def nextFault_def split: list.splits option.splits)

lemma getFeedSettings_ok_faults:
  assumes "getFeedSettings clk sh w = (Inr st, w1)"
  shows "st = (case feed_settings w sh of None \<Rightarrow> defaultSettings sh
               | Some row \<Rightarrow> rowToSettings sh row)"
    and "faults w1 = [] \<or>
         faults w = (case feed_settings w sh of None \<Rightarrow> [None, None] | Some row \<Rightarrow> [None])
                    @ faults w1"
  using assms
  by (auto simp: getFeedSettings_def selectSettings_def insertDefaultSettings_def nextFault_def
      split: list.splits option.splits if_splits)

lemma generateFeed_stamp_failure:
  assumes si: "shopInfoResult admin = Inr shopInfo" and ps: "productsResult admin = Inr products"
    and f: "faults w = (case feed_settings w sh of None \<Rightarrow> [None, None, None]
                        | Some row \<Rightarrow> [None, None]) @ Some e # rest"
    and st: "settings = (case feed_settings w sh of None \<Rightarrow> defaultSettings sh
                         | Some row \<Rightarrow> rowToSettings sh row)"
  shows "fst (generateFeed js clk admin sh w) = failure e"
    and "feed_cache (snd (generateFeed js clk admin sh w)) = (feed_cache w)(sh \<mapsto>
             \<lparr>col_feed_data = Some (feedItemsToJsonl (mapProductsToFeed js products shopInfo settings)),
              col_cache_product_count = Some (int (length (mapProductsToFeed js products shopInfo settings))),
              col_generated_at = dateNow clk\<rparr>)"
  using assms
  by (auto simp: generateFeed_def getFeedSettings_def selectSettings_def
      insertDefaultSettings_def replaceCacheRow_def updateSettingsRow_def nextFault_def Let_def
      split: option.splits)

lemma pushField_Nil_iff: "pushField f v sets = [] \<longleftrightarrow> v = None \<and> sets = []"
  by (cases v) (simp_all add: pushField_def)

lemma updateFields_Nil_iff: "updateFields updates = [] \<longleftrightarrow> noFieldPresent updates"
  by (simp add: updateFields_def pushField_Nil_iff noFieldPresent_def) blast

lemma foldl_pushField_column:
  "foldl assign row (pushField (\<lambda>b. Set_enable_search (boolToInt b)) v1 sets) =
     (foldl assign row sets)\<lparr>col_enable_search :=
        (case v1 of None \<Rightarrow> col_enable_search (foldl assign row sets) | Some x \<Rightarrow> boolToInt x)\<rparr>"
  "foldl assign row (pushField (\<lambda>b. Set_enable_checkout (boolToInt b)) v2 sets) =
     (foldl assign row sets)\<lparr>col_enable_checkout :=
        (case v2 of None \<Rightarrow> col_enable_checkout (foldl assign row sets) | Some x \<Rightarrow> boolToInt x)\<rparr>"
  "foldl assign row (pushField Set_seller_name v3 sets) =
     (foldl assign row sets)\<lparr>col_seller_name :=
        (case v3 of None \<Rightarrow> col_seller_name (foldl assign row sets) | Some x \<Rightarrow> x)\<rparr>"
  "foldl assign row (pushField Set_seller_url v4 sets) =
     (foldl assign row sets)\<lparr>col_seller_url :=
        (case v4 of None \<Rightarrow> col_seller_url (foldl assign row sets) | Some x \<Rightarrow> x)\<rparr>"
  "foldl assign row (pushField Set_privacy_policy_url v5 sets) =
     (foldl assign row sets)\<lparr>col_privacy_policy_url :=
        (case v5 of None \<Rightarrow> col_privacy_policy_url (foldl assign row sets) | Some x \<Rightarrow> x)\<rparr>"
  "foldl assign row (pushField Set_terms_of_service_url v6 sets) =
     (foldl assign row sets)\<lparr>col_terms_of_service_url :=
        (case v6 of None \<Rightarrow> col_terms_of_service_url (foldl assign row sets) | Some x \<Rightarrow> x)\<rparr>"
  "foldl assign row (pushField Set_return_policy_url v7 sets) =
     (foldl assign row sets)\<lparr>col_return_policy_url :=
        (case v7 of None \<Rightarrow> col_return_policy_url (foldl assign row sets) | Some x \<Rightarrow> x)\<rparr>"
  "foldl assign row (pushField (\<lambda>b. Set_accepts_returns (boolToInt b)) v8 sets) =
     (foldl assign row sets)\<lparr>col_accepts_returns :=
        (case v8 of None \<Rightarrow> col_accepts_returns (foldl assign row sets) | Some x \<Rightarrow> Some (boolToInt x))\<rparr>"
  "foldl assign row (pushField Set_return_deadline_days v9 sets) =
     (foldl assign row sets)\<lparr>col_return_deadline_days :=
        (case v9 of None \<Rightarrow> col_return_deadline_days (foldl assign row sets) | Some x \<Rightarrow> Some x)\<rparr>"
  "foldl assign row (pushField (\<lambda>b. Set_accepts_exchanges (boolToInt b)) v10 sets) =
     (foldl assign row sets)\<lparr>col_accepts_exchanges :=
        (case v10 of None \<Rightarrow> col_accepts_exchanges (foldl assign row sets) | Some x \<Rightarrow> Some (boolToInt x))\<rparr>"
  "foldl assign row (pushField Set_store_country v11 sets) =
     (foldl assign row sets)\<lparr>col_store_country :=
        (case v11 of None \<Rightarrow> col_store_country (foldl assign row sets) | Some x \<Rightarrow> Some x)\<rparr>"
  "foldl assign row (pushField Set_target_countries v12 sets) =
     (foldl assign row sets)\<lparr>col_target_countries :=
        (case v12 of None \<Rightarrow> col_target_countries (foldl assign row sets) | Some x \<Rightarrow> Some x)\<rparr>"
  by (simp_all add: pushField_def split: option.splits)

lemma foldl_updateFields:
  "foldl assign row (updateFields updates @ [Set_updated_at now]) = overwritePresent updates now row"
  by (simp add: updateFields_def foldl_pushField_column overwritePresent_def cong: option.case_cong)

lemma foldl_updateFields_stamp:
  "(foldl assign row (updateFields updates))\<lparr>col_updated_at := now\<rparr> =
     overwritePresent updates now row"
  using foldl_updateFields [of row updates now] by simp

lemma getFeedSettings_ok:
  assumes "faults w = []"
  shows "getFeedSettings clk sh w =
     (case feed_settings w sh of
        Some row \<Rightarrow> (Inr (rowToSettings sh row), w)
      | None \<Rightarrow> (Inr (defaultSettings sh), w\<lparr>feed_settings := (feed_settings w)(sh \<mapsto> defaultSettingsRow clk)\<rparr>))"
  using assms
  by (simp add: getFeedSettings_def selectSettings_def insertDefaultSettings_def nextFault_def
      split: option.splits)

lemma rowToSettings_default: "rowToSettings sh (defaultSettingsRow clk) = defaultSettings sh"
  by (simp add: rowToSettings_def defaultSettingsRow_def defaultSettings_def Boolean_int_def
      Boolean_col_def number_or_def or_else_def)

lemma mapVariantToFeedItem_fields:
  assumes "mapVariantToFeedItem js p v si st = Some item"
  shows "item_id item = or_else (sku v) (extractShopifyId (p_id p) @ ''-'' @ extractShopifyId (v_id v))"
    and "offer_id item = Some (or_else (sku v) (extractShopifyId (p_id p) @ ''-'' @ extractShopifyId (v_id v)))"
    and "price item =
           (if (case compareAtPrice v of None \<Rightarrow> False
                | Some c \<Rightarrow> c \<noteq> [] \<and> js_gt (parseFloat js c) (parseFloat js (v_price v)))
            then or_else (compareAtPrice v) [] else v_price v)
           @ '' '' @ (if currencyCode si \<noteq> [] then currencyCode si else ''USD'')"
    and "sale_price item =
           (if (case compareAtPrice v of None \<Rightarrow> False
                | Some c \<Rightarrow> c \<noteq> [] \<and> js_gt (parseFloat js c) (parseFloat js (v_price v)))
            then Some (v_price v @ '' '' @ (if currencyCode si \<noteq> [] then currencyCode si else ''USD''))
            else None)"
proof -
  have ok: "status p = ''ACTIVE''" "resolveMainImage p v \<noteq> []"
    using assms mapVariantToFeedItem_None_iff [of js p v si st] by auto
  from assms ok show "item_id item = or_else (sku v) (extractShopifyId (p_id p) @ ''-'' @ extractShopifyId (v_id v))"
    by (auto simp: mapVariantToFeedItem_def Let_def)
  from assms ok show "offer_id item = Some (or_else (sku v) (extractShopifyId (p_id p) @ ''-'' @ extractShopifyId (v_id v)))"
    by (auto simp: mapVariantToFeedItem_def Let_def)
  from assms ok show "price item =
           (if (case compareAtPrice v of None \<Rightarrow> False
                | Some c \<Rightarrow> c \<noteq> [] \<and> js_gt (parseFloat js c) (parseFloat js (v_price v)))
            then or_else (compareAtPrice v) [] else v_price v)
           @ '' '' @ (if currencyCode si \<noteq> [] then currencyCode si else ''USD'')"
    by (auto simp: mapVariantToFeedItem_def Let_def)
  from assms ok show "sale_price item =
           (if (case compareAtPrice v of None \<Rightarrow> False
                | Some c \<Rightarrow> c \<noteq> [] \<and> js_gt (parseFloat js c) (parseFloat js (v_price v)))
            then Some (v_price v @ '' '' @ (if currencyCode si \<noteq> [] then currencyCode si else ''USD''))
            else None)"
    by (auto simp: mapVariantToFeedItem_def Let_def)
qed

subsection \<open>The text normalizer\<close>



































subsection \<open>Serialization and the reader\<close>

lemma of_char_hexDigit:
  "d < 16 \<Longrightarrow> (of_char (hexDigit d) :: nat) = (if d < 10 then 48 + d else 87 + d)"
  by (simp add: hexDigit_def)

lemma quoteChar_codes:
  "x \<in> set (quoteChar c) \<Longrightarrow> 32 \<le> (of_char x :: nat)"
proof -
  assume x: "x \<in> set (quoteChar c)"
  let ?n = "of_char c :: nat"
  have d: "?n < 32 \<Longrightarrow> ?n div 16 < 16 \<and> ?n mod 16 < 16" by auto
  show ?thesis
  proof (cases "?n < 32")
    case True
    with x d show ?thesis
      by (auto simp: quoteChar_def Let_def of_char_hexDigit split: if_splits)
  next
    case False
    with x show ?thesis
      by (auto simp: quoteChar_def Let_def split: if_splits)
  qed
qed

lemma quoteJSONString_codes:
  "x \<in> set (quoteJSONString s) \<Longrightarrow> 32 \<le> (of_char x :: nat)"
  by (auto simp: quoteJSONString_def dest: quoteChar_codes)

lemma showNat_digits: "x \<in> set (showNat n) \<Longrightarrow> isDigit x"
proof (induction n arbitrary: x rule: showNat.induct)
  case (1 n)
  show ?case
  proof (cases "n < 10")
    case True
    with "1.prems" have "x = char_of (48 + n)" by (subst (asm) showNat.simps) simp
    with True show ?thesis by (simp add: isDigit_def)
  next
    case False
    with "1.prems" have "x \<in> set (showNat (n div 10)) \<or> x = char_of (48 + n mod 10)"
      by (subst (asm) showNat.simps) auto
    then show ?thesis
    proof
      assume "x \<in> set (showNat (n div 10))"
      then show ?thesis using "1.IH" [OF False] by simp
    next
      assume "x = char_of (48 + n mod 10)"
      moreover have "n mod 10 < 10" by simp
      ultimately show ?thesis by (simp add: isDigit_def)
    qed
  qed
qed

lemma showInt_codes: "x \<in> set (showInt i) \<Longrightarrow> 32 \<le> (of_char x :: nat)"
  by (auto simp: showInt_def isDigit_def split: if_splits dest!: showNat_digits)

lemma stringifyValue_codes: "x \<in> set (stringifyValue v) \<Longrightarrow> 32 \<le> (of_char x :: nat)"
  by (cases v) (auto dest: quoteJSONString_codes showInt_codes split: if_splits)

lemma stringifyMember_codes: "x \<in> set (stringifyMember kv) \<Longrightarrow> 32 \<le> (of_char x :: nat)"
  by (auto simp: stringifyMember_def dest: quoteJSONString_codes stringifyValue_codes)

lemma join_codes:
  "\<forall>l \<in> set ls. \<forall>x \<in> set l. P x \<Longrightarrow> \<forall>x \<in> set sep. P x \<Longrightarrow> x \<in> set (join sep ls) \<Longrightarrow> P x"
  by (induction sep ls rule: join.induct) auto

lemma stringifyObject_codes: "x \<in> set (stringifyObject props) \<Longrightarrow> 32 \<le> (of_char x :: nat)"
proof -
  assume "x \<in> set (stringifyObject props)"
  then have "x = CHR ''{'' \<or> x = CHR ''}'' \<or> x \<in> set (join '','' (map stringifyMember props))"
    by (auto simp: stringifyObject_def)
  moreover have "x \<in> set (join '','' (map stringifyMember props)) \<Longrightarrow> 32 \<le> (of_char x :: nat)"
    by (rule join_codes [where P = "\<lambda>x. 32 \<le> (of_char x :: nat)"])
       (auto dest: stringifyMember_codes)
  ultimately show ?thesis by auto
qed

lemma stringifyObject_no_newline: "CHR 0x0A \<notin> set (stringifyObject props)"
  using stringifyObject_codes [of "CHR 0x0A" props] by auto

lemma split_join_lines:
  "ls \<noteq> [] \<Longrightarrow> \<forall>l \<in> set ls. c \<notin> set l \<Longrightarrow> split_from c [] (join [c] ls) = ls"
proof (induction "[c]" ls rule: join.induct)
  case 1
  then show ?case by simp
next
  case (2 x)
  then show ?case by (simp add: split_from_no_sep)
next
  case (3 x y ys)
  then show ?case by (simp add: split_from_sep)
qed

lemma count_join_lines:
  "ls \<noteq> [] \<Longrightarrow> \<forall>l \<in> set ls. c \<notin> set l \<Longrightarrow> count_list (join [c] ls) c = length ls - 1"
proof (induction "[c]" ls rule: join.induct)
  case 1
  then show ?case by simp
next
  case (2 x)
  then show ?case by simp
next
  case (3 x y ys)
  then show ?case by simp
qed

lemma char_eq_code: "(c = d) = ((of_char c :: nat) = of_char d)"
  by auto

lemma hexValue_hexDigit: "d < 16 \<Longrightarrow> hexValue (hexDigit d) = Some d"
  by (auto simp: hexValue_def of_char_hexDigit Let_def)

lemma hexValue_zero: "hexValue CHR ''0'' = Some 0"
  by (simp add: hexValue_def)

lemma parse_quoteChar:
  "parseStringBody acc (quoteChar c @ rest) = parseStringBody (acc @ [c]) rest"
proof -
  let ?n = "of_char c :: nat"
  consider (quote) "?n = 0x22" | (backslash) "?n = 0x5C" | (b) "?n = 8" | (t) "?n = 9"
    | (n) "?n = 10" | (f) "?n = 12" | (r) "?n = 13"
    | (control) "?n < 32" "?n \<noteq> 8" "?n \<noteq> 9" "?n \<noteq> 10" "?n \<noteq> 12" "?n \<noteq> 13"
    | (plain) "32 \<le> ?n" "?n \<noteq> 0x22" "?n \<noteq> 0x5C"
    by linarith
  then show ?thesis
  proof cases
    case quote
    then have "c = CHR 0x22" by (simp add: char_eq_code)
    then show ?thesis by (simp add: quoteChar_def unescape_def)
  next
    case backslash
    then have "c = CHR 0x5C" by (simp add: char_eq_code)
    then show ?thesis by (simp add: quoteChar_def unescape_def)
  next
    case b
    then have "c = CHR 0x08" by (simp add: char_eq_code)
    then show ?thesis by (simp add: quoteChar_def unescape_def)
  next
    case t
    then have "c = CHR 0x09" by (simp add: char_eq_code)
    then show ?thesis by (simp add: quoteChar_def unescape_def)
  next
    case n
    then have "c = CHR 0x0A" by (simp add: char_eq_code)
    then show ?thesis by (simp add: quoteChar_def unescape_def)
  next
    case f
    then have "c = CHR 0x0C" by (simp add: char_eq_code)
    then show ?thesis by (simp add: quoteChar_def unescape_def)
  next
    case r
    then have "c = CHR 0x0D" by (simp add: char_eq_code)
    then show ?thesis by (simp add: quoteChar_def unescape_def)
  next
    case control
    then have q: "quoteChar c = [CHR 0x5C, CHR ''u'', CHR ''0'', CHR ''0'',
        hexDigit (?n div 16), hexDigit (?n mod 16)]"
      by (simp add: quoteChar_def Let_def)
    have h: "hexValue (hexDigit (?n div 16)) = Some (?n div 16)"
      "hexValue (hexDigit (?n mod 16)) = Some (?n mod 16)"
      using control(1) by (simp_all add: hexValue_hexDigit)
    show ?thesis
      by (simp add: q unescape_def hexValue_zero h)
  next
    case plain
    then have q: "quoteChar c = [c]" by (simp add: quoteChar_def Let_def)
    from plain have "c \<noteq> CHR 0x22" "c \<noteq> CHR 0x5C" by (auto simp: char_eq_code)
    with plain(1) show ?thesis by (simp add: q)
  qed
qed

lemma parse_quoted_body:
  "parseStringBody acc (concat (map quoteChar s) @ CHR 0x22 # rest) = Some (acc @ s, rest)"
  by (induction s arbitrary: acc) (simp_all add: parse_quoteChar)

lemma natOfDigits_snoc: "natOfDigits (xs @ [d]) = 10 * natOfDigits xs + (of_char d - 48)"
  by (simp add: natOfDigits_def)

lemma natOfDigits_showNat: "natOfDigits (showNat n) = n"
proof (induction n rule: showNat.induct)
  case (1 n)
  show ?case
  proof (cases "n < 10")
    case True
    then show ?thesis by (subst showNat.simps) (simp add: natOfDigits_def)
  next
    case False
    have "n mod 10 < 10" by simp
    then have "(of_char (char_of (48 + n mod 10) :: char) :: nat) - 48 = n mod 10" by simp
    with False "1.IH" show ?thesis
      by (subst showNat.simps) (simp add: natOfDigits_snoc)
  qed
qed

lemma showNat_nonempty: "showNat n \<noteq> []"
  by (subst showNat.simps) simp

lemma hd_showNat: "0 < n \<Longrightarrow> hd (showNat n) \<noteq> CHR ''0''"
proof (induction n rule: showNat.induct)
  case (1 n)
  show ?case
  proof (cases "n < 10")
    case True
    with "1.prems" show ?thesis
      by (subst showNat.simps) (simp add: char_eq_code)
  next
    case False
    then have "0 < n div 10" by simp
    with False "1.IH" show ?thesis
      by (subst showNat.simps) (simp add: showNat_nonempty)
  qed
qed

lemma showNat_single: "n < 10 \<Longrightarrow> length (showNat n) = 1"
  by (subst showNat.simps) simp

lemma takeWhile_digits:
  "rest = [] \<or> \<not> isDigit (hd rest) \<Longrightarrow>
     takeWhile isDigit (showNat n @ rest) = showNat n \<and>
     dropWhile isDigit (showNat n @ rest) = rest"
proof -
  assume r: "rest = [] \<or> \<not> isDigit (hd rest)"
  have all: "\<forall>x \<in> set (showNat n). isDigit x" using showNat_digits by blast
  from r have "takeWhile isDigit rest = [] \<and> dropWhile isDigit rest = rest"
    by (cases rest) auto
  with all show ?thesis by (simp add: takeWhile_append2 dropWhile_append2)
qed

lemma parseNumber_showNat:
  assumes "rest = [] \<or> \<not> isDigit (hd rest)"
  shows "parseNumber (showNat n @ rest) = Some (JNumber (int n), rest)"
proof -
  have d: "isDigit (hd (showNat n))"
    using showNat_digits [of "hd (showNat n)" n] showNat_nonempty [of n] by simp
  then have nm: "hd (showNat n @ rest) \<noteq> CHR ''-''"
    using showNat_nonempty [of n] by (auto simp: isDigit_def)
  have lead: "\<not> (length (showNat n) > 1 \<and> hd (showNat n) = CHR ''0'')"
  proof (cases "n = 0")
    case True
    then show ?thesis by (simp add: showNat_single)
  next
    case False
    then show ?thesis using hd_showNat [of n] by simp
  qed
  show ?thesis
    using nm lead takeWhile_digits [OF assms, of n] showNat_nonempty [of n]
    by (simp add: parseNumber_def Let_def natOfDigits_showNat)
qed

lemma parseNumber_showInt:
  assumes "rest = [] \<or> \<not> isDigit (hd rest)"
  shows "parseNumber (showInt i @ rest) = Some (JNumber i, rest)"
proof (cases "i < 0")
  case True
  have lead: "\<not> (length (showNat (nat (- i))) > 1 \<and> hd (showNat (nat (- i))) = CHR ''0'')"
    using hd_showNat [of "nat (- i)"] True by simp
  show ?thesis
    using True lead takeWhile_digits [OF assms, of "nat (- i)"] showNat_nonempty [of "nat (- i)"]
    by (simp add: showInt_def parseNumber_def Let_def natOfDigits_showNat)
next
  case False
  then show ?thesis using parseNumber_showNat [OF assms, of "nat i"] by (simp add: showInt_def)
qed

lemma hd_showInt: "\<exists>d ds. showInt i = d # ds \<and> (isDigit d \<or> d = CHR ''-'')"
proof (cases "i < 0")
  case True
  then show ?thesis by (simp add: showInt_def)
next
  case False
  obtain d ds where s: "showNat (nat i) = d # ds"
    using showNat_nonempty [of "nat i"] by (cases "showNat (nat i)") auto
  then have "isDigit d" using showNat_digits [of d "nat i"] by simp
  with s False show ?thesis by (simp add: showInt_def)
qed

lemma parseValue_stringifyValue:
  assumes "rest = [] \<or> \<not> isDigit (hd rest)"
  shows "parseValue (stringifyValue v @ rest) = Some (v, rest)"
proof (cases v)
  case (JString s)
  then show ?thesis
    by (simp add: parseValue_def quoteJSONString_def parse_quoted_body)
next
  case (JBool b)
  then show ?thesis by (simp add: parseValue_def)
next
  case (JNumber i)
  obtain d ds where s: "showInt i = d # ds" and k: "isDigit d \<or> d = CHR ''-''"
    using hd_showInt by blast
  from k have "d \<noteq> CHR 0x22" "d \<noteq> CHR ''t''" "d \<noteq> CHR ''f''"
    by (auto simp: isDigit_def)
  then have "parseValue ((d # ds) @ rest) = parseNumber ((d # ds) @ rest)"
    by (simp add: parseValue_def)
  with s JNumber show ?thesis using parseNumber_showInt [OF assms, of i] by simp
qed

lemma parseMembers_member:
  "parseMembers (stringifyMember (k, v) @ d # s5) =
     (case parseValue (stringifyValue v @ d # s5) of
        None \<Rightarrow> None
      | Some (v', s4) \<Rightarrow>
          (case s4 of
             [] \<Rightarrow> None
           | d' # s5' \<Rightarrow>
               if d' = CHR ''}'' then (if s5' = [] then Some [(k, v')] else None)
               else if d' = CHR '','' then map_option (\<lambda>ms. (k, v') # ms) (parseMembers s5')
               else None))"
  by (simp add: stringifyMember_def quoteJSONString_def parse_quoted_body)

lemma parseMembers_join:
  "props \<noteq> [] \<Longrightarrow> parseMembers (join '','' (map stringifyMember props) @ ''}'') = Some props"
proof (induction props rule: list_nonempty_induct)
  case (single kv)
  obtain k v where kv: "kv = (k, v)" by (cases kv)
  have "parseValue (stringifyValue v @ ''}'') = Some (v, ''}'')"
    by (rule parseValue_stringifyValue) (simp add: isDigit_def)
  then show ?case using parseMembers_member [of k v "CHR ''}''" "[]"] by (simp add: kv)
next
  case (cons kv props)
  obtain k v where kv: "kv = (k, v)" by (cases kv)
  let ?rest = "join '','' (map stringifyMember props) @ ''}''"
  have "parseValue (stringifyValue v @ CHR '','' # ?rest) = Some (v, CHR '','' # ?rest)"
    by (rule parseValue_stringifyValue) (simp add: isDigit_def)
  moreover have "join '','' (map stringifyMember (kv # props)) @ ''}'' =
      stringifyMember (k, v) @ CHR '','' # ?rest"
    using cons.hyps by (cases props) (simp_all add: kv)
  ultimately show ?case
    using parseMembers_member [of k v "CHR '',''" ?rest] cons.IH by (simp add: kv)
qed

lemma parseObject_stringifyObject: "parseObject (stringifyObject props) = Some props"
proof (cases "props = []")
  case True
  then show ?thesis by (simp add: parseObject_def stringifyObject_def)
next
  case False
  then obtain kv ps where p: "props = kv # ps" by (cases props) auto
  have "\<exists>xs. join '','' (map stringifyMember props) @ ''}'' = CHR 0x22 # xs"
    by (cases ps) (simp_all add: p stringifyMember_def quoteJSONString_def)
  then have "join '','' (map stringifyMember props) @ ''}'' \<noteq> ''}''"
    by auto
  with False show ?thesis
    using parseMembers_join [OF False] by (simp add: parseObject_def stringifyObject_def)
qed

subsection \<open>The claims about the mapper\<close>

text \<open>
  \<^bold>\<open>C4\<close>. The availability of a variant follows the priority order: inventory policy
  CONTINUE gives \<open>in_stock\<close>; else a true sellable flag gives \<open>in_stock\<close>; else a known
  quantity of at most zero gives \<open>out_of_stock\<close>; else the result mirrors the sellable
  flag. No variant is mapped to \<open>preorder\<close>.
\<close>

theorem getAvailability_priority:
  "(inventoryPolicy variant = ''CONTINUE'' \<longrightarrow> getAvailability variant = in_stock) \<and>
   (inventoryPolicy variant \<noteq> ''CONTINUE'' \<and> availableForSale variant \<longrightarrow>
      getAvailability variant = in_stock) \<and>
   (inventoryPolicy variant \<noteq> ''CONTINUE'' \<and> \<not> availableForSale variant \<and>
    (\<exists>q. inventoryQuantity variant = Some q \<and> q \<le> 0) \<longrightarrow>
      getAvailability variant = out_of_stock) \<and>
   (inventoryPolicy variant \<noteq> ''CONTINUE'' \<and>
    \<not> (\<exists>q. inventoryQuantity variant = Some q \<and> q \<le> 0) \<longrightarrow>
      getAvailability variant = (if availableForSale variant then in_stock else out_of_stock)) \<and>
   getAvailability variant \<noteq> preorder"
  by (cases "inventoryQuantity variant") (auto simp: getAvailability_def)

theorem getAvailability_priority_witness:
  "inventoryPolicy continueVariant = ''CONTINUE'' \<and>
   getAvailability continueVariant = in_stock \<and>
   inventoryPolicy mugVariant \<noteq> ''CONTINUE'' \<and> availableForSale mugVariant \<and>
   getAvailability mugVariant = in_stock \<and>
   inventoryPolicy soldOutVariant \<noteq> ''CONTINUE'' \<and> \<not> availableForSale soldOutVariant \<and>
   (\<exists>q. inventoryQuantity soldOutVariant = Some q \<and> q \<le> 0) \<and>
   getAvailability soldOutVariant = out_of_stock \<and>
   inventoryPolicy untrackedVariant \<noteq> ''CONTINUE'' \<and>
   \<not> (\<exists>q. inventoryQuantity untrackedVariant = Some q \<and> q \<le> 0) \<and>
   getAvailability untrackedVariant = out_of_stock"
  using getAvailability_priority [of continueVariant] getAvailability_priority [of mugVariant]
    getAvailability_priority [of soldOutVariant] getAvailability_priority [of untrackedVariant]
  by (simp add: continueVariant_def mugVariant_def soldOutVariant_def untrackedVariant_def)

text \<open>
  \<^bold>\<open>C10\<close>. In every emitted record \<open>item_id\<close> and \<open>offer_id\<close> are equal: both are the
  variant's SKU when it is present and not empty, and otherwise both are
  \<open>{productId}-{variantId}\<close>, where each identifier is the last \<open>/\<close>-separated segment
  of the global id.
\<close>

theorem item_id_equals_offer_id:
  assumes "mapVariantToFeedItem js product variant shopInfo settings = Some item"
  shows "offer_id item = Some (item_id item) \<and>
         (\<forall>s. sku variant = Some s \<and> s \<noteq> [] \<longrightarrow> item_id item = s) \<and>
         (sku variant = None \<or> sku variant = Some [] \<longrightarrow>
            item_id item =
              extractShopifyId (p_id product) @ ''-'' @ extractShopifyId (v_id variant)) \<and>
         (\<forall>pre n. CHR ''/'' \<notin> set n \<longrightarrow> extractShopifyId (pre @ CHR ''/'' # n) = n)"
  using mapVariantToFeedItem_fields(1,2) [OF assms]
  by (auto simp: or_else_def extractShopifyId_last_segment)

theorem item_id_equals_offer_id_witness:
  "(\<exists>item. mapVariantToFeedItem sampleNumberOps mugProduct mugVariant sampleShopInfo
              (defaultSettings sampleShop) = Some item \<and>
           offer_id item = Some ''11-22'' \<and> item_id item = ''11-22'') \<and>
   (\<exists>item. mapVariantToFeedItem sampleNumberOps mugProduct skuVariant sampleShopInfo
              (defaultSettings sampleShop) = Some item \<and>
           offer_id item = Some ''MUG-1'' \<and> item_id item = ''MUG-1'')"
proof -
  obtain a where a: "mapVariantToFeedItem sampleNumberOps mugProduct mugVariant sampleShopInfo
      (defaultSettings sampleShop) = Some a"
    using mapVariantToFeedItem_None_iff [of sampleNumberOps mugProduct mugVariant sampleShopInfo
        "defaultSettings sampleShop"]
    by (auto simp: mugProduct_def mugVariant_def resolveMainImage_def or_else_def)
  obtain b where b: "mapVariantToFeedItem sampleNumberOps mugProduct skuVariant sampleShopInfo
      (defaultSettings sampleShop) = Some b"
    using mapVariantToFeedItem_None_iff [of sampleNumberOps mugProduct skuVariant sampleShopInfo
        "defaultSettings sampleShop"]
    by (auto simp: mugProduct_def mugVariant_def skuVariant_def resolveMainImage_def or_else_def)
  have ids: "extractShopifyId (p_id mugProduct) = ''11''"
    "extractShopifyId (v_id mugVariant) = ''22''" "extractShopifyId (v_id skuVariant) = ''22''"
    by (simp_all add: mugProduct_def mugVariant_def skuVariant_def extractShopifyId_def split_on_def)
  have "offer_id a = Some ''11-22'' \<and> item_id a = ''11-22''"
    using item_id_equals_offer_id [OF a] ids by (simp add: mugVariant_def)
  moreover have "offer_id b = Some ''MUG-1'' \<and> item_id b = ''MUG-1''"
    using item_id_equals_offer_id [OF b] by (simp add: mugVariant_def skuVariant_def)
  ultimately show ?thesis using a b by simp
qed


text \<open>
  \<^bold>\<open>C3\<close>. For every emitted record with variant price \<open>P\<close> and compare-at price \<open>C\<close>:
  if \<open>C\<close> is present (a non-empty string) and \<open>parseFloat\<close> reads it as a number
  strictly greater than \<open>P\<close>, then \<open>price\<close> is \<open>"C currency"\<close> and \<open>sale_price\<close> is
  \<open>"P currency"\<close>, with the same currency suffix; if \<open>C\<close> is absent, or both are numbers
  and \<open>C\<close> is at most \<open>P\<close>, then \<open>sale_price\<close> is absent and \<open>price\<close> is \<open>"P currency"\<close>.
  The currency is the shop's currency code, \<open>USD\<close> when that is empty.
\<close>

theorem price_swap:
  assumes "mapVariantToFeedItem js product variant shopInfo settings = Some item"
    and "currency = (if currencyCode shopInfo \<noteq> [] then currencyCode shopInfo else ''USD'')"
  shows "(\<forall>C c p. compareAtPrice variant = Some C \<and> C \<noteq> [] \<and>
            parseFloat js C = Some c \<and> parseFloat js (v_price variant) = Some p \<and> p < c \<longrightarrow>
            price item = C @ '' '' @ currency \<and>
            sale_price item = Some (v_price variant @ '' '' @ currency)) \<and>
         (compareAtPrice variant = None \<or>
          (\<exists>C c p. compareAtPrice variant = Some C \<and>
             parseFloat js C = Some c \<and> parseFloat js (v_price variant) = Some p \<and> c \<le> p) \<longrightarrow>
            sale_price item = None \<and> price item = v_price variant @ '' '' @ currency)"
  using mapVariantToFeedItem_fields(3,4) [OF assms(1)] assms(2)
  by (auto simp: js_gt_def or_else_def)

theorem price_swap_witness:
  "(\<exists>item. mapVariantToFeedItem sampleNumberOps mugProduct discountedVariant sampleShopInfo
              (defaultSettings sampleShop) = Some item \<and>
           compareAtPrice discountedVariant = Some ''10.00'' \<and>
           parseFloat sampleNumberOps ''10.00'' = Some 1000 \<and>
           parseFloat sampleNumberOps (v_price discountedVariant) = Some 800 \<and>
           price item = ''10.00 USD'' \<and> sale_price item = Some ''8.00 USD'') \<and>
   (\<exists>item. mapVariantToFeedItem sampleNumberOps mugProduct mugVariant sampleShopInfo
              (defaultSettings sampleShop) = Some item \<and>
           compareAtPrice mugVariant = None \<and>
           price item = ''10.00 USD'' \<and> sale_price item = None)"
proof -
  obtain a where a: "mapVariantToFeedItem sampleNumberOps mugProduct discountedVariant
      sampleShopInfo (defaultSettings sampleShop) = Some a"
    using mapVariantToFeedItem_None_iff [of sampleNumberOps mugProduct discountedVariant
        sampleShopInfo "defaultSettings sampleShop"]
    by (auto simp: mugProduct_def mugVariant_def discountedVariant_def resolveMainImage_def
        or_else_def)
  obtain b where b: "mapVariantToFeedItem sampleNumberOps mugProduct mugVariant sampleShopInfo
      (defaultSettings sampleShop) = Some b"
    using mapVariantToFeedItem_None_iff [of sampleNumberOps mugProduct mugVariant sampleShopInfo
        "defaultSettings sampleShop"]
    by (auto simp: mugProduct_def mugVariant_def resolveMainImage_def or_else_def)
  have cur: "''USD'' = (if currencyCode sampleShopInfo \<noteq> [] then currencyCode sampleShopInfo
                        else ''USD'')"
    by (simp add: sampleShopInfo_def)
  have "price a = ''10.00 USD'' \<and> sale_price a = Some ''8.00 USD''"
    using price_swap [OF a cur]
    by (simp add: discountedVariant_def mugVariant_def sampleNumberOps_def)
  moreover have "price b = ''10.00 USD'' \<and> sale_price b = None"
    using price_swap [OF b cur] by (simp add: mugVariant_def)
  ultimately show ?thesis
    using a b by (simp add: discountedVariant_def mugVariant_def sampleNumberOps_def)
qed

text \<open>
  \<^bold>\<open>C7\<close>. The record mapper returns the skip outcome exactly when the product's status
  is not \<open>ACTIVE\<close> or the resolved main image is empty; it raises no error on any
  input. The resolved main image is empty exactly when the variant's image URL and the
  product's first image URL are both missing or empty, so it is empty when the variant
  has no image and the product has no images, and, when no URL is the empty string,
  only then. The batch mapper emits, in input order, one record for each pair of an
  active product and a variant with a non-empty resolved image, and nothing else.
\<close>

theorem skip_conditions:
  "(mapVariantToFeedItem js product variant shopInfo settings = None \<longleftrightarrow>
      status product \<noteq> ''ACTIVE'' \<or> resolveMainImage product variant = []) \<and>
   (resolveMainImage product variant = [] \<longleftrightarrow>
      \<not> truthy (map_option img_url (v_image variant)) \<and>
      (images product = [] \<or> img_url (hd (images product)) = [])) \<and>
   (v_image variant = None \<and> images product = [] \<longrightarrow>
      resolveMainImage product variant = []) \<and>
   ((\<forall>i. v_image variant = Some i \<longrightarrow> img_url i \<noteq> []) \<and>
    (\<forall>i \<in> set (images product). img_url i \<noteq> []) \<longrightarrow>
      (resolveMainImage product variant = [] \<longleftrightarrow>
         v_image variant = None \<and> images product = [])) \<and>
   mapProductsToFeed js products shopInfo settings =
     concat (map (\<lambda>p. map (\<lambda>v. the (mapVariantToFeedItem js p v shopInfo settings))
                          (filter (\<lambda>v. status p = ''ACTIVE'' \<and> resolveMainImage p v \<noteq> [])
                                  (variants p)))
                 products)"
proof -
  have batch: "mapProductsToFeed js products shopInfo settings =
     concat (map (\<lambda>p. map (\<lambda>v. the (mapVariantToFeedItem js p v shopInfo settings))
                          (filter (\<lambda>v. status p = ''ACTIVE'' \<and> resolveMainImage p v \<noteq> [])
                                  (variants p)))
                 products)"
    by (simp add: mapProductsToFeed_def mapProductsLoop_acc map_filter_eligible)
  have noimg: "(\<forall>i. v_image variant = Some i \<longrightarrow> img_url i \<noteq> []) \<and>
    (\<forall>i \<in> set (images product). img_url i \<noteq> []) \<longrightarrow>
      (resolveMainImage product variant = [] \<longleftrightarrow>
         v_image variant = None \<and> images product = [])"
    by (cases "v_image variant"; cases "images product")
       (auto simp: resolveMainImage_def or_else_def)
  have none: "v_image variant = None \<and> images product = [] \<longrightarrow>
      resolveMainImage product variant = []"
    by (simp add: resolveMainImage_def or_else_def)
  show ?thesis
    using batch noimg none mapVariantToFeedItem_None_iff [of js product variant shopInfo settings]
      resolveMainImage_empty_iff [of product variant]
    by blast
qed

theorem skip_conditions_witness:
  "mapVariantToFeedItem sampleNumberOps draftProduct mugVariant sampleShopInfo
     (defaultSettings sampleShop) = None \<and>
   v_image mugVariant = None \<and> images (mugProduct\<lparr>images := []\<rparr>) = [] \<and>
   resolveMainImage (mugProduct\<lparr>images := []\<rparr>) mugVariant = [] \<and>
   mapVariantToFeedItem sampleNumberOps (mugProduct\<lparr>images := []\<rparr>) mugVariant sampleShopInfo
     (defaultSettings sampleShop) = None \<and>
   [] \<notin> set (map img_url (images mugProduct)) \<and>
   resolveMainImage mugProduct mugVariant \<noteq> [] \<and>
   mapVariantToFeedItem sampleNumberOps mugProduct mugVariant sampleShopInfo
     (defaultSettings sampleShop) \<noteq> None \<and>
   mapProductsToFeed sampleNumberOps [draftProduct, mugProduct\<lparr>images := []\<rparr>] sampleShopInfo
     (defaultSettings sampleShop) = []"
  using skip_conditions [of sampleNumberOps draftProduct mugVariant sampleShopInfo
      "defaultSettings sampleShop" "[]"]
    skip_conditions [of sampleNumberOps "mugProduct\<lparr>images := []\<rparr>" mugVariant sampleShopInfo
      "defaultSettings sampleShop" "[draftProduct, mugProduct\<lparr>images := []\<rparr>]"]
    skip_conditions [of sampleNumberOps mugProduct mugVariant sampleShopInfo
      "defaultSettings sampleShop" "[]"]
  by (simp add: draftProduct_def mugProduct_def mugVariant_def truthy_def)




text \<open>
  \<^bold>\<open>C6\<close> (as amended). For every non-empty list of \<open>N\<close> feed records, splitting the
  serialization at the newline character gives exactly \<open>N\<close> lines, the \<open>JSON.stringify\<close>
  texts of the records in their order; the serialization holds \<open>N - 1\<close> newline
  characters, one between consecutive records and none after the last; and every line
  reads back as a JSON object with the properties of its record. The reader returns
  the properties of any object that \<open>JSON.stringify\<close> has written.
\<close>

theorem jsonl_round_trip:
  assumes "items \<noteq> []"
  shows "split_on (CHR 0x0A) (feedItemsToJsonl items) = map stringifyItem items \<and>
         length (split_on (CHR 0x0A) (feedItemsToJsonl items)) = length items \<and>
         count_list (feedItemsToJsonl items) (CHR 0x0A) = length items - 1 \<and>
         map parseObject (split_on (CHR 0x0A) (feedItemsToJsonl items)) =
           map (\<lambda>item. Some (feedItemProperties item)) items \<and>
         parseObject (stringifyObject props) = Some props"
proof -
  let ?lines = "map stringifyItem items"
  have ne: "?lines \<noteq> []" using assms by simp
  have nl: "\<forall>l \<in> set ?lines. CHR 0x0A \<notin> set l"
    by (auto simp: stringifyItem_def stringifyObject_no_newline)
  have split: "split_on (CHR 0x0A) (feedItemsToJsonl items) = ?lines"
    using split_join_lines [OF ne nl] by (simp add: split_on_def feedItemsToJsonl_def)
  have count: "count_list (feedItemsToJsonl items) (CHR 0x0A) = length items - 1"
    using count_join_lines [OF ne nl] by (simp add: feedItemsToJsonl_def)
  have parse: "map parseObject ?lines = map (\<lambda>item. Some (feedItemProperties item)) items"
    by (simp add: stringifyItem_def parseObject_stringifyObject)
  show ?thesis
    using split count parse parseObject_stringifyObject [of props] by simp
qed

theorem jsonl_round_trip_witness:
  "[sampleItem, sampleItem] \<noteq> [] \<and>
   split_on (CHR 0x0A) (feedItemsToJsonl [sampleItem, sampleItem]) =
     [stringifyItem sampleItem, stringifyItem sampleItem] \<and>
   length (split_on (CHR 0x0A) (feedItemsToJsonl [sampleItem, sampleItem])) = 2 \<and>
   count_list (feedItemsToJsonl [sampleItem, sampleItem]) (CHR 0x0A) = 1"
  using jsonl_round_trip [of "[sampleItem, sampleItem]"] by simp

text \<open>
  Without the restriction to non-empty lists the property fails, at \<open>N = 0\<close>: the
  serialization of no records is the empty string, which splits into one line, the
  empty one, and that line is not a JSON object.
\<close>

theorem jsonl_empty_counterexample:
  "feedItemsToJsonl [] = [] \<and>
   split_on (CHR 0x0A) (feedItemsToJsonl []) = [[]] \<and>
   length (split_on (CHR 0x0A) (feedItemsToJsonl [])) = 1 \<and>
   parseObject [] = None"
  by (simp add: feedItemsToJsonl_def split_on_def parseObject_def)

subsection \<open>The claims about the store\<close>

text \<open>
  \<^bold>\<open>C1\<close> (as amended). While the store answers, \<open>getCachedFeed\<close> returns the absent
  result exactly when the shop has no cache row or the payload of its row is NULL or
  the empty string; a row with a non-empty payload is returned with its payload, count
  and timestamp. The read changes nothing. In particular the row that a successful
  generation with zero eligible records writes is read as absent.
\<close>

theorem getCachedFeed_absent_iff:
  assumes "faults w = []"
  shows "(fst (getCachedFeed sh w) = Inr None \<longleftrightarrow>
            (feed_cache w sh = None \<or>
             (\<exists>row. feed_cache w sh = Some row \<and>
                    (col_feed_data row = None \<or> col_feed_data row = Some [])))) \<and>
         (\<forall>row payload. feed_cache w sh = Some row \<and> col_feed_data row = Some payload \<and>
             payload \<noteq> [] \<longrightarrow>
             fst (getCachedFeed sh w) =
               Inr (Some \<lparr>feedData = payload,
                          cachedProductCount = col_cache_product_count row,
                          generatedAt = col_generated_at row\<rparr>)) \<and>
         snd (getCachedFeed sh w) = w"
  using assms
  by (auto simp: getCachedFeed_def nextFault_def truthy_def or_else_def split: option.splits)

theorem getCachedFeed_absent_iff_witness:
  "faults (emptyWorld\<lparr>feed_cache := [sampleShop \<mapsto>
       \<lparr>col_feed_data = Some ''{}'', col_cache_product_count = Some 1,
        col_generated_at = 5\<rparr>]\<rparr>) = [] \<and>
   fst (getCachedFeed sampleShop (emptyWorld\<lparr>feed_cache := [sampleShop \<mapsto>
       \<lparr>col_feed_data = Some ''{}'', col_cache_product_count = Some 1,
        col_generated_at = 5\<rparr>]\<rparr>)) =
     Inr (Some \<lparr>feedData = ''{}'', cachedProductCount = Some 1, generatedAt = 5\<rparr>) \<and>
   fst (getCachedFeed sampleShop emptyWorld) = Inr None"
  using getCachedFeed_absent_iff [of "emptyWorld\<lparr>feed_cache := [sampleShop \<mapsto>
       \<lparr>col_feed_data = Some ''{}'', col_cache_product_count = Some 1,
        col_generated_at = 5\<rparr>]\<rparr>" sampleShop]
    getCachedFeed_absent_iff [of emptyWorld sampleShop]
  by (simp add: emptyWorld_def)

text \<open>
  "Absent only when no cache row exists" fails: generating the feed of an empty
  catalog succeeds and stores a row whose payload is the empty string, and
  \<open>getCachedFeed\<close> then returns the absent result although the row exists.
\<close>

theorem getCachedFeed_empty_payload_counterexample:
  "success (fst (generateFeed sampleNumberOps sampleClock emptyCatalog sampleShop emptyWorld)) \<and>
   feed_cache (snd (generateFeed sampleNumberOps sampleClock emptyCatalog sampleShop emptyWorld))
     sampleShop =
     Some \<lparr>col_feed_data = Some [], col_cache_product_count = Some 0,
           col_generated_at = 1700000000123\<rparr> \<and>
   fst (getCachedFeed sampleShop
         (snd (generateFeed sampleNumberOps sampleClock emptyCatalog sampleShop emptyWorld))) =
     Inr None"
  by (simp add: generateFeed_def getFeedSettings_def selectSettings_def
      insertDefaultSettings_def nextFault_def emptyWorld_def emptyCatalog_def
      mapProductsToFeed_def feedItemsToJsonl_def replaceCacheRow_def updateSettingsRow_def
      sampleClock_def getCachedFeed_def truthy_def Let_def)

text \<open>
  \<^bold>\<open>C2\<close> (as amended). A generation runs its statements in this order: the read of the
  settings row, the insert of the default row when the shop has none, the replacement
  of the cache row, and the stamp of the settings row. When \<open>generateFeed\<close> returns a
  failure,
  \<^item> the rows of every other shop are unchanged;
  \<^item> the shop's \<open>feed_settings\<close> row is unchanged, or there was none and the get-or-create
    has inserted the default row;
  \<^item> the cache table is unchanged, unless both fetches succeeded and the failing
    statement is the final stamp: then, and only then, the shop's cache row is the
    complete new row of this generation, its payload being the serialization of the
    catalog mapped with the settings that the get-or-create returned, and the failure
    carries the error of the stamp;
  \<^item> when a fetch fails the cache table is unchanged.
\<close>

theorem generateFeed_failure_frame:
  assumes gen: "generateFeed js clk admin sh w = (r, w')" and fail: "\<not> success r"
    and st: "settings = (case feed_settings w sh of None \<Rightarrow> defaultSettings sh
                         | Some row \<Rightarrow> rowToSettings sh row)"
    and before: "statementsBefore = (case feed_settings w sh of None \<Rightarrow> [None, None, None]
                                     | Some row \<Rightarrow> [None, None])"
  shows "(\<forall>s. s \<noteq> sh \<longrightarrow>
            feed_settings w' s = feed_settings w s \<and> feed_cache w' s = feed_cache w s) \<and>
         (feed_settings w' sh = feed_settings w sh \<or>
          (feed_settings w sh = None \<and> feed_settings w' sh = Some (defaultSettingsRow clk))) \<and>
         (feed_cache w' = feed_cache w \<or>
          (\<exists>shopInfo products e rest.
             shopInfoResult admin = Inr shopInfo \<and> productsResult admin = Inr products \<and>
             faults w = statementsBefore @ Some e # rest \<and> r = failure e \<and>
             feed_cache w' = (feed_cache w)(sh \<mapsto>
               \<lparr>col_feed_data =
                  Some (feedItemsToJsonl (mapProductsToFeed js products shopInfo settings)),
                col_cache_product_count =
                  Some (int (length (mapProductsToFeed js products shopInfo settings))),
                col_generated_at = dateNow clk\<rparr>))) \<and>
         (\<forall>shopInfo products e rest.
             shopInfoResult admin = Inr shopInfo \<and> productsResult admin = Inr products \<and>
             faults w = statementsBefore @ Some e # rest \<longrightarrow>
             r = failure e \<and>
             feed_cache w' = (feed_cache w)(sh \<mapsto>
               \<lparr>col_feed_data =
                  Some (feedItemsToJsonl (mapProductsToFeed js products shopInfo settings)),
                col_cache_product_count =
                  Some (int (length (mapProductsToFeed js products shopInfo settings))),
                col_generated_at = dateNow clk\<rparr>)) \<and>
         ((\<exists>e. shopInfoResult admin = Inl e) \<or> (\<exists>e. productsResult admin = Inl e) \<longrightarrow>
            feed_cache w' = feed_cache w)"
proof -
  obtain sr w1 where g: "getFeedSettings clk sh w = (sr, w1)" by (cases "getFeedSettings clk sh w")
  note g1 = getFeedSettings_effect [OF g]
  have c1: "feed_cache w1 = feed_cache w" by (rule g1(1))
  have s1: "\<forall>s. s \<noteq> sh \<longrightarrow> feed_settings w1 s = feed_settings w s" using g1(2) by auto
  have s1': "feed_settings w1 sh = feed_settings w sh \<or>
         (feed_settings w sh = None \<and> feed_settings w1 sh = Some (defaultSettingsRow clk))"
    using g1(2) by auto
  have conv: "\<forall>shopInfo products e rest.
             shopInfoResult admin = Inr shopInfo \<and> productsResult admin = Inr products \<and>
             faults w = statementsBefore @ Some e # rest \<longrightarrow>
             r = failure e \<and>
             feed_cache w' = (feed_cache w)(sh \<mapsto>
               \<lparr>col_feed_data =
                  Some (feedItemsToJsonl (mapProductsToFeed js products shopInfo settings)),
                col_cache_product_count =
                  Some (int (length (mapProductsToFeed js products shopInfo settings))),
                col_generated_at = dateNow clk\<rparr>)"
  proof (intro allI impI)
    fix shopInfo products e rest
    assume a: "shopInfoResult admin = Inr shopInfo \<and> productsResult admin = Inr products \<and>
             faults w = statementsBefore @ Some e # rest"
    then have f: "faults w = (case feed_settings w sh of None \<Rightarrow> [None, None, None]
                        | Some row \<Rightarrow> [None, None]) @ Some e # rest"
      using before by simp
    from a have si: "shopInfoResult admin = Inr shopInfo" and ps: "productsResult admin = Inr products"
      by simp_all
    show "r = failure e \<and>
             feed_cache w' = (feed_cache w)(sh \<mapsto>
               \<lparr>col_feed_data =
                  Some (feedItemsToJsonl (mapProductsToFeed js products shopInfo settings)),
                col_cache_product_count =
                  Some (int (length (mapProductsToFeed js products shopInfo settings))),
                col_generated_at = dateNow clk\<rparr>)"
      using generateFeed_stamp_failure [OF si ps f st, of js clk] gen by simp
  qed
  from generateFeed_stamp_cases [OF gen fail g]
  consider (early) "w' = w1"
    | (cache_failed) shopInfo stt products w2 e where
        "replaceCacheRow sh (feedItemsToJsonl (mapProductsToFeed js products shopInfo stt))
            (int (length (mapProductsToFeed js products shopInfo stt))) (dateNow clk) w1 = (Inl e, w2)"
        "w' = w2"
    | (stamp_failed) shopInfo stt products w2 e sets where
        "sr = Inr stt"
        "shopInfoResult admin = Inr shopInfo" "productsResult admin = Inr products"
        "replaceCacheRow sh (feedItemsToJsonl (mapProductsToFeed js products shopInfo stt))
            (int (length (mapProductsToFeed js products shopInfo stt))) (dateNow clk) w1 = (Inr (), w2)"
        "updateSettingsRow sh sets w2 = (Inl e, w')" "r = failure e"
    by blast
  then have frame: "(\<forall>s. s \<noteq> sh \<longrightarrow>
            feed_settings w' s = feed_settings w s \<and> feed_cache w' s = feed_cache w s) \<and>
         (feed_settings w' sh = feed_settings w sh \<or>
          (feed_settings w sh = None \<and> feed_settings w' sh = Some (defaultSettingsRow clk))) \<and>
         (feed_cache w' = feed_cache w \<or>
          (\<exists>shopInfo products e rest.
             shopInfoResult admin = Inr shopInfo \<and> productsResult admin = Inr products \<and>
             faults w = statementsBefore @ Some e # rest \<and> r = failure e \<and>
             feed_cache w' = (feed_cache w)(sh \<mapsto>
               \<lparr>col_feed_data =
                  Some (feedItemsToJsonl (mapProductsToFeed js products shopInfo settings)),
                col_cache_product_count =
                  Some (int (length (mapProductsToFeed js products shopInfo settings))),
                col_generated_at = dateNow clk\<rparr>))) \<and>
         ((\<exists>e. shopInfoResult admin = Inl e) \<or> (\<exists>e. productsResult admin = Inl e) \<longrightarrow>
            feed_cache w' = feed_cache w)"
  proof cases
    case early
    then show ?thesis using c1 s1 s1' by simp
  next
    case cache_failed
    note rc = replaceCacheRow_effect [OF cache_failed(1)]
    have "feed_cache w2 = feed_cache w1" using rc(3) by simp
    moreover have "feed_settings w2 = feed_settings w1" by (rule rc(1))
    ultimately show ?thesis using c1 s1 s1' cache_failed(2) by simp
  next
    case stamp_failed
    note rc = replaceCacheRow_effect [OF stamp_failed(4)]
    note us = updateSettingsRow_effect [OF stamp_failed(5)]
    have g': "getFeedSettings clk sh w = (Inr stt, w1)" using g stamp_failed(1) by simp
    have stt: "stt = settings" using getFeedSettings_ok_faults(1) [OF g'] st by simp
    have f2: "faults w2 = Some e # faults w'"
      by (rule updateSettingsRow_fail_faults [OF stamp_failed(5)])
    have f1: "faults w1 = None # Some e # faults w'"
      using replaceCacheRow_ok_faults [OF stamp_failed(4)] f2 by auto
    have f0: "faults w = statementsBefore @ Some e # faults w'"
      using getFeedSettings_ok_faults(2) [OF g'] f1 before
      by (auto split: option.splits)
    have fs: "feed_settings w' = feed_settings w1" using us(2) rc(1) by simp
    have fc: "feed_cache w' = (feed_cache w)(sh \<mapsto>
             \<lparr>col_feed_data = Some (feedItemsToJsonl (mapProductsToFeed js products shopInfo settings)),
              col_cache_product_count = Some (int (length (mapProductsToFeed js products shopInfo settings))),
              col_generated_at = dateNow clk\<rparr>)"
      using us(1) rc(2) c1 stt by simp
    have ex: "\<exists>shopInfo products e rest.
             shopInfoResult admin = Inr shopInfo \<and> productsResult admin = Inr products \<and>
             faults w = statementsBefore @ Some e # rest \<and> r = failure e \<and>
             feed_cache w' = (feed_cache w)(sh \<mapsto>
               \<lparr>col_feed_data =
                  Some (feedItemsToJsonl (mapProductsToFeed js products shopInfo settings)),
                col_cache_product_count =
                  Some (int (length (mapProductsToFeed js products shopInfo settings))),
                col_generated_at = dateNow clk\<rparr>)"
      using stamp_failed(2,3,6) f0 fc by blast
    have other: "\<forall>s. s \<noteq> sh \<longrightarrow>
            feed_settings w' s = feed_settings w s \<and> feed_cache w' s = feed_cache w s"
      using fs fc s1 by simp
    have own: "feed_settings w' sh = feed_settings w sh \<or>
          (feed_settings w sh = None \<and> feed_settings w' sh = Some (defaultSettingsRow clk))"
      using fs s1' by simp
    have nofetch: "(\<exists>e. shopInfoResult admin = Inl e) \<or> (\<exists>e. productsResult admin = Inl e) \<longrightarrow>
            feed_cache w' = feed_cache w"
      using stamp_failed(2,3) by simp
    from other own ex nofetch show ?thesis by blast
  qed
  from frame conv show ?thesis by blast
qed

theorem generateFeed_failure_frame_witness:
  "\<not> success (fst (generateFeed sampleNumberOps sampleClock failingCatalog sampleShop emptyWorld)) \<and>
   feed_cache (snd (generateFeed sampleNumberOps sampleClock failingCatalog sampleShop emptyWorld))
     = feed_cache emptyWorld \<and>
   feed_settings emptyWorld sampleShop = None \<and>
   feed_settings (snd (generateFeed sampleNumberOps sampleClock failingCatalog sampleShop emptyWorld))
     sampleShop = Some (defaultSettingsRow sampleClock) \<and>
   shopInfoResult mugCatalog = Inr sampleShopInfo \<and> productsResult mugCatalog = Inr [mugProduct] \<and>
   faults searchOffWorld = [None, None] @ Some (Error ''D1_ERROR'') # [] \<and>
   \<not> success (fst (generateFeed sampleNumberOps sampleClock mugCatalog sampleShop searchOffWorld)) \<and>
   fst (generateFeed sampleNumberOps sampleClock mugCatalog sampleShop searchOffWorld) =
     failure (Error ''D1_ERROR'') \<and>
   feed_cache (snd (generateFeed sampleNumberOps sampleClock mugCatalog sampleShop searchOffWorld)) =
     [sampleShop \<mapsto>
       \<lparr>col_feed_data =
          Some (feedItemsToJsonl (mapProductsToFeed sampleNumberOps [mugProduct] sampleShopInfo
                  (rowToSettings sampleShop searchOffRow))),
        col_cache_product_count =
          Some (int (length (mapProductsToFeed sampleNumberOps [mugProduct] sampleShopInfo
                  (rowToSettings sampleShop searchOffRow)))),
        col_generated_at = dateNow sampleClock\<rparr>]"
proof -
  have run: "generateFeed sampleNumberOps sampleClock failingCatalog sampleShop emptyWorld =
      (failure (Error ''fetch failed''),
       emptyWorld\<lparr>feed_settings := [sampleShop \<mapsto> defaultSettingsRow sampleClock]\<rparr>)"
    by (simp add: generateFeed_def getFeedSettings_def selectSettings_def
        insertDefaultSettings_def nextFault_def emptyWorld_def failingCatalog_def)
  have fail: "\<not> success (failure (Error ''fetch failed''))"
    by (simp add: failure_def)
  have st1: "defaultSettings sampleShop =
      (case feed_settings emptyWorld sampleShop of None \<Rightarrow> defaultSettings sampleShop
       | Some row \<Rightarrow> rowToSettings sampleShop row)"
    and b1: "[None, None, None] =
      (case feed_settings emptyWorld sampleShop of None \<Rightarrow> [None, None, None]
       | Some row \<Rightarrow> [None, None :: error option])"
    by (simp_all add: emptyWorld_def)
  have si: "shopInfoResult mugCatalog = Inr sampleShopInfo"
    and ps: "productsResult mugCatalog = Inr [mugProduct]"
    by (simp_all add: mugCatalog_def)
  have st2: "rowToSettings sampleShop searchOffRow =
      (case feed_settings searchOffWorld sampleShop of None \<Rightarrow> defaultSettings sampleShop
       | Some row \<Rightarrow> rowToSettings sampleShop row)"
    and b2: "[None, None] =
      (case feed_settings searchOffWorld sampleShop of None \<Rightarrow> [None, None, None]
       | Some row \<Rightarrow> [None, None :: error option])"
    by (simp_all add: searchOffWorld_def)
  have f2: "faults searchOffWorld =
      (case feed_settings searchOffWorld sampleShop of None \<Rightarrow> [None, None, None]
       | Some row \<Rightarrow> [None, None]) @ Some (Error ''D1_ERROR'') # []"
    by (simp add: searchOffWorld_def)
  have r2: "fst (generateFeed sampleNumberOps sampleClock mugCatalog sampleShop searchOffWorld) =
      failure (Error ''D1_ERROR'')"
    by (rule generateFeed_stamp_failure(1) [OF si ps f2 st2])
  then have fail2:
    "\<not> success (fst (generateFeed sampleNumberOps sampleClock mugCatalog sampleShop searchOffWorld))"
    by (simp add: failure_def)
  have gen2: "generateFeed sampleNumberOps sampleClock mugCatalog sampleShop searchOffWorld =
      (fst (generateFeed sampleNumberOps sampleClock mugCatalog sampleShop searchOffWorld),
       snd (generateFeed sampleNumberOps sampleClock mugCatalog sampleShop searchOffWorld))"
    by simp
  have f2': "faults searchOffWorld = [None, None] @ Some (Error ''D1_ERROR'') # []"
    by (simp add: searchOffWorld_def)
  have c2: "feed_cache searchOffWorld = Map.empty"
    by (simp add: searchOffWorld_def)
  show ?thesis
    using generateFeed_failure_frame [OF run fail st1 b1]
      generateFeed_failure_frame [OF gen2 fail2 st2 b2] run fail fail2 si ps f2' c2
    by (simp add: emptyWorld_def failingCatalog_def)
qed

text \<open>
  "Nothing is written on failure" fails twice. A generation whose catalog fetch fails
  has already inserted the default settings row of a new shop. A generation whose last
  statement (the stamp of the settings row) fails has already replaced the cache row.
\<close>

theorem generateFeed_failure_writes_counterexample:
  "\<not> success (fst (generateFeed sampleNumberOps sampleClock failingCatalog sampleShop emptyWorld)) \<and>
   feed_settings (snd (generateFeed sampleNumberOps sampleClock failingCatalog sampleShop emptyWorld))
     sampleShop \<noteq> feed_settings emptyWorld sampleShop \<and>
   \<not> success (fst (generateFeed sampleNumberOps sampleClock emptyCatalog sampleShop
                    stampFailureWorld)) \<and>
   feed_cache (snd (generateFeed sampleNumberOps sampleClock emptyCatalog sampleShop
                    stampFailureWorld)) sampleShop
     \<noteq> feed_cache stampFailureWorld sampleShop"
  by (simp add: generateFeed_def getFeedSettings_def selectSettings_def
      insertDefaultSettings_def nextFault_def emptyWorld_def emptyCatalog_def
      failingCatalog_def stampFailureWorld_def failure_def
      mapProductsToFeed_def feedItemsToJsonl_def replaceCacheRow_def updateSettingsRow_def
      Let_def)

text \<open>
  \<^bold>\<open>C9\<close>. For a shop without a settings row, and while the store answers, one call of
  \<open>getFeedSettings\<close> inserts exactly one row, the row of that shop, carrying the defaults
  (search on, checkout off, returns accepted with a deadline of 30 days, exchanges
  accepted, country US), and returns these defaults; a second call, at any later time,
  inserts nothing and returns the same settings.
\<close>

theorem getFeedSettings_get_or_create:
  assumes "feed_settings w sh = None" and "faults w = []"
  shows "\<exists>w1. getFeedSettings clk sh w = (Inr (defaultSettings sh), w1) \<and>
           feed_settings w1 = (feed_settings w)(sh \<mapsto> defaultSettingsRow clk) \<and>
           dom (feed_settings w1) = insert sh (dom (feed_settings w)) \<and>
           feed_cache w1 = feed_cache w \<and>
           getFeedSettings clk' sh w1 = (Inr (defaultSettings sh), w1) \<and>
           enable_search (defaultSettings sh) \<and> \<not> enable_checkout (defaultSettings sh) \<and>
           accepts_returns (defaultSettings sh) \<and>
           return_deadline_days (defaultSettings sh) = 30 \<and>
           accepts_exchanges (defaultSettings sh) \<and>
           store_country (defaultSettings sh) = ''US'' \<and>
           col_enable_search (defaultSettingsRow clk) = 1 \<and>
           col_enable_checkout (defaultSettingsRow clk) = 0 \<and>
           col_accepts_returns (defaultSettingsRow clk) = Some 1 \<and>
           col_return_deadline_days (defaultSettingsRow clk) = Some 30 \<and>
           col_accepts_exchanges (defaultSettingsRow clk) = Some 1 \<and>
           col_store_country (defaultSettingsRow clk) = Some ''US''"
proof -
  have run: "getFeedSettings clk sh w =
      (Inr (defaultSettings sh), w\<lparr>feed_settings := (feed_settings w)(sh \<mapsto> defaultSettingsRow clk)\<rparr>)"
    using assms by (simp add: getFeedSettings_ok)
  have again: "getFeedSettings clk' sh
        (w\<lparr>feed_settings := (feed_settings w)(sh \<mapsto> defaultSettingsRow clk)\<rparr>) =
      (Inr (defaultSettings sh), w\<lparr>feed_settings := (feed_settings w)(sh \<mapsto> defaultSettingsRow clk)\<rparr>)"
    using assms by (simp add: getFeedSettings_ok rowToSettings_default)
  have vals: "enable_search (defaultSettings sh) \<and> \<not> enable_checkout (defaultSettings sh) \<and>
           accepts_returns (defaultSettings sh) \<and>
           return_deadline_days (defaultSettings sh) = 30 \<and>
           accepts_exchanges (defaultSettings sh) \<and>
           store_country (defaultSettings sh) = ''US'' \<and>
           col_enable_search (defaultSettingsRow clk) = 1 \<and>
           col_enable_checkout (defaultSettingsRow clk) = 0 \<and>
           col_accepts_returns (defaultSettingsRow clk) = Some 1 \<and>
           col_return_deadline_days (defaultSettingsRow clk) = Some 30 \<and>
           col_accepts_exchanges (defaultSettingsRow clk) = Some 1 \<and>
           col_store_country (defaultSettingsRow clk) = Some ''US''"
    by (simp add: defaultSettings_def defaultSettingsRow_def)
  show ?thesis using run again vals by simp
qed

theorem getFeedSettings_get_or_create_witness:
  "feed_settings emptyWorld sampleShop = None \<and> faults emptyWorld = [] \<and>
   (\<exists>w1. getFeedSettings sampleClock sampleShop emptyWorld =
            (Inr (defaultSettings sampleShop), w1) \<and>
          dom (feed_settings w1) = {sampleShop} \<and>
          getFeedSettings sampleClock sampleShop w1 = (Inr (defaultSettings sampleShop), w1))"
proof -
  have a: "feed_settings emptyWorld sampleShop = None" and b: "faults emptyWorld = []"
    by (simp_all add: emptyWorld_def)
  show ?thesis
    using getFeedSettings_get_or_create [OF a b, of sampleClock sampleClock] a b
    by (auto simp: emptyWorld_def)
qed

text \<open>
  \<^bold>\<open>C8\<close>. While the store answers, \<open>updateFeedSettings\<close> leaves the cache and the rows of
  other shops alone and turns the stored row of the shop (the default row when the
  get-or-create has just inserted it) into the row in which exactly the fields present
  in the partial input are overwritten, booleans as 0 or 1, and \<open>updated_at\<close> is the
  current time, every other column keeping its stored value. When the partial input
  has none of the recognised fields the row stays as stored, and when the row existed
  the tables are not written at all.
\<close>

theorem updateFeedSettings_partial:
  assumes "faults w = []"
    and "stored = (case feed_settings w sh of None \<Rightarrow> defaultSettingsRow clk | Some row \<Rightarrow> row)"
  shows "\<exists>w'. updateFeedSettings clk sh updates w = (Inr (), w') \<and>
      feed_cache w' = feed_cache w \<and>
      (\<forall>s. s \<noteq> sh \<longrightarrow> feed_settings w' s = feed_settings w s) \<and>
      (\<not> noFieldPresent updates \<longrightarrow>
         feed_settings w' sh = Some (overwritePresent updates (dateNow clk) stored)) \<and>
      (noFieldPresent updates \<longrightarrow> feed_settings w' sh = Some stored) \<and>
      (noFieldPresent updates \<and> feed_settings w sh \<noteq> None \<longrightarrow>
         feed_settings w' = feed_settings w) \<and>
      boolToInt True = 1 \<and> boolToInt False = 0"
  using assms
  by (auto simp: updateFeedSettings_def getFeedSettings_ok updateSettingsRow_def nextFault_def
        updateFields_Nil_iff foldl_updateFields_stamp Let_def boolToInt_def
      split: option.splits)

theorem updateFeedSettings_partial_witness:
  "faults emptyWorld = [] \<and> \<not> noFieldPresent onlySearchOff \<and>
   (\<exists>w'. updateFeedSettings sampleClock sampleShop onlySearchOff emptyWorld = (Inr (), w') \<and>
      feed_settings w' sampleShop =
        Some ((defaultSettingsRow sampleClock)
                \<lparr>col_enable_search := 0, col_updated_at := dateNow sampleClock\<rparr>)) \<and>
   noFieldPresent (onlySearchOff\<lparr>upd_enable_search := None\<rparr>) \<and>
   (\<exists>w'. updateFeedSettings sampleClock sampleShop (onlySearchOff\<lparr>upd_enable_search := None\<rparr>)
            emptyWorld = (Inr (), w') \<and>
      feed_settings w' sampleShop = Some (defaultSettingsRow sampleClock)) \<and>
   faults settledWorld = [] \<and> feed_settings settledWorld sampleShop \<noteq> None \<and>
   (\<exists>w'. updateFeedSettings sampleClock sampleShop (onlySearchOff\<lparr>upd_enable_search := None\<rparr>)
            settledWorld = (Inr (), w') \<and>
      feed_settings w' = feed_settings settledWorld)"
proof -
  have a: "faults emptyWorld = []" by (simp add: emptyWorld_def)
  have s: "defaultSettingsRow sampleClock =
     (case feed_settings emptyWorld sampleShop of None \<Rightarrow> defaultSettingsRow sampleClock
      | Some row \<Rightarrow> row)"
    by (simp add: emptyWorld_def)
  have a': "faults settledWorld = []" by (simp add: settledWorld_def emptyWorld_def)
  have s': "defaultSettingsRow sampleClock =
     (case feed_settings settledWorld sampleShop of None \<Rightarrow> defaultSettingsRow sampleClock
      | Some row \<Rightarrow> row)"
    by (simp add: settledWorld_def emptyWorld_def)
  have e: "feed_settings settledWorld sampleShop \<noteq> None"
    by (simp add: settledWorld_def emptyWorld_def)
  have n1: "\<not> noFieldPresent onlySearchOff"
    and n2: "noFieldPresent (onlySearchOff\<lparr>upd_enable_search := None\<rparr>)"
    by (simp_all add: noFieldPresent_def onlySearchOff_def)
  have ow: "overwritePresent onlySearchOff (dateNow sampleClock) (defaultSettingsRow sampleClock)
      = (defaultSettingsRow sampleClock)
          \<lparr>col_enable_search := 0, col_updated_at := dateNow sampleClock\<rparr>"
    by (simp add: overwritePresent_def onlySearchOff_def defaultSettingsRow_def boolToInt_def)
  show ?thesis
    using updateFeedSettings_partial [OF a s, of onlySearchOff]
      updateFeedSettings_partial [OF a s, of "onlySearchOff\<lparr>upd_enable_search := None\<rparr>"]
      updateFeedSettings_partial [OF a' s', of "onlySearchOff\<lparr>upd_enable_search := None\<rparr>"]
      a a' e n1 n2 ow
    by auto
qed

end
